theory Spec2Isabelle
  imports Main "HOL-Library.AList" "HOL-Library.Sublist"
begin

section \<open>Values shared by the whole server\<close>

text \<open>
  The embedding follows \<^verbatim>\<open>marxan-server.py\<close>. Python exceptions are values of
  \<open>exn\<close>; a function that may raise returns \<open>exn + 'a\<close> with \<open>Inl\<close> for the
  raised exception. Only the exception classes that the modelled handlers tell apart are
  kept apart; the argument is the message (\<^verbatim>\<open>e.args[0]\<close>).
\<close>

datatype exn =
    MarxanServicesError string
  | AttributeError string
  | KeyError string
  | IndexError
  | UnboundLocalError string
  | NameError string
  | ProcessLookupError
  | PermissionError
  | WindowsError int
  | IntegrityError string
  | UniqueViolation string
  | OperationalError string
  | InternalError string
  | CancelledError
  | ValueError string
  | TypeError string
  | MissingArgumentError string
  | OtherException string

text \<open>\<^verbatim>\<open>str(n)\<close> for a Python int: decimal digits, a minus sign for negatives.\<close>

fun str_nat :: "nat \<Rightarrow> string" where
  "str_nat n =
     (if n < 10 then [''0123456789'' ! n]
      else str_nat (n div 10) @ [''0123456789'' ! (n mod 10)])"

declare str_nat.simps [simp del]

definition str_int :: "int \<Rightarrow> string" where
  "str_int i = (if i < 0 then CHR ''-'' # str_nat (nat (- i)) else str_nat (nat i))"

text \<open>\<^verbatim>\<open>str(x)\<close> where \<open>x\<close> may be \<^verbatim>\<open>None\<close>.\<close>

definition str_opt :: "int option \<Rightarrow> string" where
  "str_opt x = (case x of None \<Rightarrow> ''None'' | Some i \<Rightarrow> str_int i)"

text \<open>Python truthiness of an optional int: \<^verbatim>\<open>None\<close> and \<^verbatim>\<open>0\<close> are false.\<close>

definition truthy :: "int option \<Rightarrow> bool" where
  "truthy x = (case x of None \<Rightarrow> False | Some i \<Rightarrow> i \<noteq> 0)"

text \<open>\<^verbatim>\<open>s.find(c)\<close>: the index of the first occurrence, \<open>None\<close> for Python's \<open>-1\<close>.\<close>

fun find_char :: "char \<Rightarrow> string \<Rightarrow> nat option" where
  "find_char c [] = None"
| "find_char c (x # xs) = (if x = c then Some 0 else map_option Suc (find_char c xs))"

text \<open>
  \<^verbatim>\<open>s[s.find("/"):]\<close>: from the first slash on; with no slash the slice starts at
  \<open>-1\<close>, which is the last character (nothing for the empty string).
\<close>

definition from_slash :: "string \<Rightarrow> string" where
  "from_slash s =
     (case find_char (CHR ''/'') s of
        Some k \<Rightarrow> drop k s
      | None \<Rightarrow> drop (length s - 1) s)"

text \<open>
  The clock: \<open>now\<close> is \<^verbatim>\<open>datetime.datetime.now()\<close> in whole seconds and \<open>stamp\<close> is
  its rendering by \<^verbatim>\<open>strftime("%d/%m/%y %H:%M:%S")\<close>. \<^verbatim>\<open>timedelta.seconds\<close> is the
  seconds part of the difference, that is the difference modulo one day.
\<close>

record clock =
  now :: int
  stamp :: string

definition seconds :: "int \<Rightarrow> int \<Rightarrow> int" where
  "seconds later earlier = (later - earlier) mod 86400"

section \<open>The file system of the projects\<close>

text \<open>
  The file system as the code asks for it: \<open>path_exists fs p\<close> is
  \<^verbatim>\<open>os.path.exists(p)\<close> and \<open>glob fs pat\<close> is the list that \<^verbatim>\<open>glob.glob(pat)\<close>
  returns. The whole pattern is handed over as the code builds it, so that the characters
  \<^verbatim>\<open>*\<close>, \<^verbatim>\<open>?\<close> and \<^verbatim>\<open>[\<close> of a user or project name in it mean what \<^verbatim>\<open>glob\<close>
  makes of them. \<^verbatim>\<open>os.remove(f)\<close> takes the path \<open>f\<close> out of the file system (the
  paths that \<^verbatim>\<open>_deleteAllFiles\<close> finds are files that can be removed).
\<close>

record filesystem =
  path_exists :: "string \<Rightarrow> bool"
  glob :: "string \<Rightarrow> string list"

definition os_remove :: "filesystem \<Rightarrow> string \<Rightarrow> filesystem" where
  "os_remove fs f =
     fs\<lparr>path_exists := (\<lambda>p. p \<noteq> f \<and> path_exists fs p),
        glob := (\<lambda>pat. removeAll f (glob fs pat))\<rparr>"

text \<open>
  The configuration holds \<^verbatim>\<open>MARXAN_USERS_FOLDER\<close>, \<^verbatim>\<open>os.sep\<close>, \<^verbatim>\<open>ERRORS_PAGE\<close>,
  \<^verbatim>\<open>MARXAN_EXECUTABLE\<close> and \<^verbatim>\<open>platform.system() == "Windows"\<close>, which are set when
  the server starts, and what the installed pandas does with the text of one cell of a
  file: \<open>is_na t\<close> tells whether \<^verbatim>\<open>read_csv\<close> takes \<open>t\<close> for a missing value (the empty
  text, \<^verbatim>\<open>NA\<close>, \<^verbatim>\<open>null\<close>, ...), \<open>is_number t\<close> whether it parses \<open>t\<close> as a number,
  \<open>is_bool t\<close> whether it parses \<open>t\<close> as a truth value (\<^verbatim>\<open>True\<close>, \<^verbatim>\<open>false\<close>, ...),
  and \<open>repr_cell col t\<close> is the text that \<^verbatim>\<open>to_csv\<close> writes for the number or truth
  value read from \<open>t\<close> in a column with the texts \<open>col\<close>.
\<close>

record config =
  MARXAN_USERS_FOLDER :: string
  os_sep :: string
  ERRORS_PAGE :: string
  MARXAN_EXECUTABLE :: string
  windows :: bool
  is_na :: "string \<Rightarrow> bool"
  is_number :: "string \<Rightarrow> bool"
  is_bool :: "string \<Rightarrow> bool"
  repr_cell :: "string list \<Rightarrow> string \<Rightarrow> string"

definition folder_output_of :: "config \<Rightarrow> string \<Rightarrow> string \<Rightarrow> string" where
  "folder_output_of cfg u p =
     MARXAN_USERS_FOLDER cfg @ u @ os_sep cfg @ p @ os_sep cfg @ ''output'' @ os_sep cfg"

definition folder_project_of :: "config \<Rightarrow> string \<Rightarrow> string \<Rightarrow> string" where
  "folder_project_of cfg u p = MARXAN_USERS_FOLDER cfg @ u @ os_sep cfg @ p @ os_sep cfg"

text \<open>\<^verbatim>\<open>_getNumberOfRunsCompleted\<close>: the number of paths that match \<^verbatim>\<open>output_r*\<close>.\<close>

definition getNumberOfRunsCompleted :: "filesystem \<Rightarrow> string \<Rightarrow> nat" where
  "getNumberOfRunsCompleted fs folder_output = length (glob fs (folder_output @ ''output_r*''))"

text \<open>
  \<^verbatim>\<open>_deleteAllFiles\<close>: every path \<open>f\<close> that matches with \<^verbatim>\<open>f[:-3] != 'dat'\<close> is
  removed (\<^verbatim>\<open>f[:-3]\<close> is \<open>f\<close> without its last three characters).
\<close>

definition deleteAllFiles :: "filesystem \<Rightarrow> string \<Rightarrow> filesystem" where
  "deleteAllFiles fs folder =
     foldl os_remove fs
       (filter (\<lambda>f. take (length f - 3) f \<noteq> ''dat'') (glob fs (folder @ ''*'')))"

section \<open>The run log\<close>

text \<open>
  A row of \<^verbatim>\<open>runlog.dat\<close>: the eight columns of the header, as the text that the
  file holds (the pid is a number in every line that the code writes). The run log itself
  is \<open>None\<close> when the file has no such table (it does not exist, so that \<^verbatim>\<open>_loadCSV\<close>
  returns a data frame without columns, or it was first written by an append and has no
  header line); then every column access raises \<^verbatim>\<open>KeyError\<close>. Row labels are the
  positions \<open>0, 1, ...\<close>.
\<close>

record row =
  pid :: int
  user :: string
  project :: string
  starttime :: string
  endtime :: string
  runtime :: string
  runs :: string
  status :: string

type_synonym runlog = "row list option"

text \<open>
  What \<^verbatim>\<open>pandas.read_csv\<close> makes of the text \<open>t\<close> of a cell in a column with the texts
  \<open>col\<close>. The column becomes numeric when every cell is a number or missing, and a column
  of truth values when every cell is one or missing; in every other column a missing value
  is \<^verbatim>\<open>NaN\<close> and all else is kept as \<^verbatim>\<open>str\<close>. \<open>cell\<close> is the \<^verbatim>\<open>str\<close>, or \<open>None\<close>
  for a value of another type. This matters for the columns \<open>user\<close> and \<open>project\<close>,
  whose names come from the requests; the other text columns hold what the code writes
  (dates, \<open>k/n\<close>, a word for the status, the empty text), which is read back as written.
  The names carry no tab, quote or line break.
\<close>

definition as_str :: "config \<Rightarrow> string list \<Rightarrow> string \<Rightarrow> bool" where
  "as_str cfg col t \<longleftrightarrow>
     \<not> is_na cfg t \<and> \<not> list_all (\<lambda>x. is_na cfg x \<or> is_number cfg x) col
     \<and> \<not> list_all (\<lambda>x. is_na cfg x \<or> is_bool cfg x) col"

definition cell :: "config \<Rightarrow> string list \<Rightarrow> string \<Rightarrow> string option" where
  "cell cfg col t = (if as_str cfg col t then Some t else None)"

text \<open>
  What \<^verbatim>\<open>to_csv\<close> writes for that cell: a \<^verbatim>\<open>str\<close> as it is, \<^verbatim>\<open>NaN\<close> as the empty
  text, a number or truth value in the form pandas gives it.
\<close>

definition to_csv_cell :: "config \<Rightarrow> string list \<Rightarrow> string \<Rightarrow> string" where
  "to_csv_cell cfg col t =
     (if as_str cfg col t then t else if is_na cfg t then [] else repr_cell cfg col t)"

definition to_csv :: "config \<Rightarrow> row list \<Rightarrow> row list" where
  "to_csv cfg df =
     map (\<lambda>r. r\<lparr>user := to_csv_cell cfg (map user df) (user r),
                project := to_csv_cell cfg (map project df) (project r)\<rparr>) df"

text \<open>\<^verbatim>\<open>df.loc[df['pid'] == p].index.tolist()\<close>, first element if any.\<close>

fun index_of_pid :: "int \<Rightarrow> row list \<Rightarrow> nat option" where
  "index_of_pid p [] = None"
| "index_of_pid p (r # rs) = (if pid r = p then Some 0 else map_option Suc (index_of_pid p rs))"

text \<open>
  \<^verbatim>\<open>_isProjectRunning\<close>: the comparison of a cell with the \<^verbatim>\<open>str\<close> of the request
  is false for a cell that is not a \<^verbatim>\<open>str\<close>.
\<close>

definition isProjectRunning :: "config \<Rightarrow> runlog \<Rightarrow> string \<Rightarrow> string \<Rightarrow> exn + bool" where
  "isProjectRunning cfg rl u p =
     (case rl of
        None \<Rightarrow> Inl (KeyError ''status'')
      | Some df \<Rightarrow>
          Inr (filter (\<lambda>r. status r = ''Running'' \<and> cell cfg (map user df) (user r) = Some u
                            \<and> cell cfg (map project df) (project r) = Some p) df \<noteq> []))"

text \<open>
  The loop of \<^verbatim>\<open>_getRunLogs\<close> over the rows that were running when the file was
  read, with the columns \<open>us\<close> and \<open>ps\<close> of users and projects as read. The path of the
  output folder is built first: adding a user or project that is not a \<^verbatim>\<open>str\<close> to a
  \<^verbatim>\<open>str\<close> raises \<^verbatim>\<open>TypeError\<close>. The row that is rewritten is the first one with the
  same pid.
\<close>

fun refresh_runs ::
  "config \<Rightarrow> filesystem \<Rightarrow> string list \<Rightarrow> string list \<Rightarrow> row list \<Rightarrow> row list \<Rightarrow> exn + row list" where
  "refresh_runs cfg fs us ps [] df = Inr df"
| "refresh_runs cfg fs us ps (r # rs) df =
     (case (cell cfg us (user r), cell cfg ps (project r)) of
        (Some u, Some p) \<Rightarrow>
          (case index_of_pid (pid r) df of
             None \<Rightarrow> Inl IndexError
           | Some i \<Rightarrow>
               refresh_runs cfg fs us ps rs
                 (df[i := (df ! i)\<lparr>runs :=
                    str_nat (getNumberOfRunsCompleted fs (folder_output_of cfg u p))
                      @ from_slash (runs (df ! i))\<rparr>]))
      | _ \<Rightarrow> Inl (TypeError ''can only concatenate str to str''))"

definition getRunLogs :: "config \<Rightarrow> filesystem \<Rightarrow> runlog \<Rightarrow> exn + row list" where
  "getRunLogs cfg fs rl =
     (case rl of
        None \<Rightarrow> Inl (KeyError ''status'')
      | Some df \<Rightarrow>
          refresh_runs cfg fs (map user df) (map project df)
            (filter (\<lambda>r. status r = ''Running'') df) df)"

text \<open>
  \<^verbatim>\<open>_updateRunLog\<close>. Whatever the \<^verbatim>\<open>try\<close> block raises becomes the
  \<^verbatim>\<open>MarxanServicesError\<close>; nothing is written then. Otherwise the data frame is
  written back whole and the status of the row is returned.
\<close>

definition updateRunLog ::
  "config \<Rightarrow> filesystem \<Rightarrow> clock \<Rightarrow> runlog \<Rightarrow> int \<Rightarrow> int option \<Rightarrow> int option \<Rightarrow> int option
     \<Rightarrow> string \<Rightarrow> exn + (runlog \<times> string)" where
  "updateRunLog cfg fs clk rl p startTime numRunsCompleted numRunsRequired st =
     (case (case getRunLogs cfg fs rl of
              Inl e \<Rightarrow> None
            | Inr df \<Rightarrow> map_option (\<lambda>i. (df, i)) (index_of_pid p df)) of
        None \<Rightarrow>
          Inl (MarxanServicesError
                (''Unable to update run log for pid '' @ str_int p @ '' with status '' @ st))
      | Some (df, i) \<Rightarrow>
          let df1 = (case startTime of
                       None \<Rightarrow> df
                     | Some t \<Rightarrow>
                         df[i := (df ! i)\<lparr>endtime := stamp clk,
                                          runtime := str_int (seconds (now clk) t) @ ''s''\<rparr>]);
              df2 = (if truthy numRunsCompleted
                     then df1[i := (df1 ! i)\<lparr>runs :=
                            str_opt numRunsCompleted @ ''/'' @ str_opt numRunsRequired\<rparr>]
                     else df1);
              df3 = (if status (df2 ! i) = ''Running''
                     then df2[i := (df2 ! i)\<lparr>status := st\<rparr>]
                     else df2)
          in Inr (Some (to_csv cfg df3), status (df3 ! i)))"

section \<open>Sessions: \<^verbatim>\<open>MarxanWebSocketHandler\<close>\<close>

text \<open>
  A message is a Python dict with string values; \<^verbatim>\<open>dict.update\<close> of one key is
  \<open>AList.update\<close> (the key keeps its place, a new key goes last).

  A session is the handler object together with its channel. The attributes that the
  code tests with \<^verbatim>\<open>hasattr\<close>, or sets only on some paths, are options: \<open>None\<close> is
  a missing attribute. \<open>req_user\<close> and \<open>req_project\<close> are the request arguments (and
  \<^verbatim>\<open>self.user\<close>, \<^verbatim>\<open>self.project\<close>, which \<^verbatim>\<open>_setFolderPaths\<close> copies from them;
  the arguments carry no surrounding white space). \<open>pc\<close> is the keep-alive
  \<^verbatim>\<open>PeriodicCallback\<close> with its \<^verbatim>\<open>is_running\<close> flag. \<open>ws_connection\<close> tells whether
  the channel is still there: Tornado's \<^verbatim>\<open>write_message\<close> raises
  \<^verbatim>\<open>WebSocketClosedError\<close> when it is not, and \<^verbatim>\<open>WebSocketHandler.close\<close> drops it.
  \<open>written\<close> are the frames that went out, \<open>warnings\<close> the lines of
  \<^verbatim>\<open>logging.warning\<close>.

  A method returns the exception it raises, if any, next to the state it leaves behind.
\<close>

type_synonym message = "(string \<times> string) list"

record session =
  uri :: string
  req_user :: "string option"
  req_project :: "string option"
  startTime :: int
  self_pid :: "string option"
  marxanProcess :: "int option"
  numRunsRequired :: "int option"
  pc :: "bool option"
  clientSentFinalMsg :: "bool option"
  ws_connection :: bool
  written :: "message list"
  warnings :: "string list"

text \<open>The first lines of \<^verbatim>\<open>close\<close>: stop the ping messages.\<close>

definition stop_pc :: "session \<Rightarrow> session" where
  "stop_pc s = (if pc s = Some True then s\<lparr>pc := Some False\<rparr> else s)"

text \<open>\<^verbatim>\<open>close(clean=False)\<close>, as \<^verbatim>\<open>send_response\<close> calls it.\<close>

definition close_not_clean :: "session \<Rightarrow> exn option \<times> session" where
  "close_not_clean s =
     (let s1 = stop_pc s in
      case clientSentFinalMsg s1 of
        None \<Rightarrow> (Some (AttributeError ''clientSentFinalMsg''), s1)
      | Some final \<Rightarrow>
          let s2 = (if \<not> final
                    then s1\<lparr>warnings := warnings s1 @ [''The client closed the connection: '' @ uri s1],
                            clientSentFinalMsg := Some True\<rparr>
                    else s1)
          in (None, s2\<lparr>ws_connection := False\<rparr>))"

text \<open>
  \<^verbatim>\<open>send_response\<close> first adds the elapsed time, the user of the request and the pid
  of the attached query or job to the message, then writes it.
\<close>

definition enriched :: "clock \<Rightarrow> session \<Rightarrow> message \<Rightarrow> message" where
  "enriched clk s message =
     (let m1 = AList.update ''elapsedtime'' (str_int (seconds (now clk) (startTime s)) @ ''s'') message;
          m2 = (case req_user s of Some u \<Rightarrow> AList.update ''user'' u m1 | None \<Rightarrow> m1);
          m3 = (case self_pid s of Some p \<Rightarrow> AList.update ''pid'' p m2 | None \<Rightarrow> m2)
      in case marxanProcess s of
           Some n \<Rightarrow> AList.update ''pid'' (''m'' @ str_int n) m3
         | None \<Rightarrow> m3)"

definition send_response :: "clock \<Rightarrow> session \<Rightarrow> message \<Rightarrow> exn option \<times> session" where
  "send_response clk s message =
     (if ws_connection s then (None, s\<lparr>written := written s @ [enriched clk s message]\<rparr>)
      else close_not_clean s)"

definition close :: "clock \<Rightarrow> session \<Rightarrow> message \<Rightarrow> bool \<Rightarrow> exn option \<times> session" where
  "close clk s closeMessage clean =
     (if clean then
        (let m = AList.update ''status'' ''Finished'' closeMessage in
         case send_response clk (stop_pc s) m of
           (Some e, s1) \<Rightarrow> (Some e, s1)
         | (None, s1) \<Rightarrow>
             let s2 = (case map_of m ''error'' of
                         Some err \<Rightarrow> s1\<lparr>warnings := warnings s1 @ [err]\<rparr>
                       | None \<Rightarrow> s1)
             in (None, s2\<lparr>clientSentFinalMsg := Some True, ws_connection := False\<rparr>))
      else close_not_clean s)"

text \<open>
  \<^verbatim>\<open>MarxanWebSocketHandler.open\<close>. What the collaborators do is given by the
  environment: \<open>getProjectData\<close> is the exception that reading the project's
  \<^verbatim>\<open>input.dat\<close> raises, \<open>http_error\<close> the last line of the \<^verbatim>\<open>HTTPError\<close> of
  \<^verbatim>\<open>_authenticate\<close>, \<^verbatim>\<open>_authoriseRole\<close> or \<^verbatim>\<open>_authoriseUser\<close>.
\<close>

record open_env =
  getProjectData :: "exn option"
  http_error :: "string option"

definition MarxanWebSocketHandler_open ::
  "clock \<Rightarrow> 'a open_env_scheme \<Rightarrow> session \<Rightarrow> message \<Rightarrow> exn option \<times> session" where
  "MarxanWebSocketHandler_open clk env s startMessage =
     (case send_response clk (s\<lparr>startTime := now clk\<rparr>)
             (AList.update ''status'' ''Started'' startMessage) of
        (Some e, s1) \<Rightarrow> (Some e, s1)
      | (None, s1) \<Rightarrow>
          (case (if req_user s1 \<noteq> None \<and> req_project s1 \<noteq> None
                 then getProjectData env else None) of
             Some e \<Rightarrow> (Some e, s1)
           | None \<Rightarrow>
               (case http_error env of
                  Some err \<Rightarrow>
                    (case close clk s1 [(''error'', err)] True of
                       (Some e, s2) \<Rightarrow> (Some e, s2)
                     | (None, s2) \<Rightarrow> (Some (MarxanServicesError ''Request denied''), s2))
                | None \<Rightarrow>
                    (case send_response clk s1
                            [(''status'', ''Preprocessing''), (''info'', ''Preprocessing..'')] of
                       (Some e, s2) \<Rightarrow> (Some e, s2)
                     | (None, s2) \<Rightarrow>
                         (None, s2\<lparr>pc := Some True, clientSentFinalMsg := Some False\<rparr>)))))"

section \<open>The query executor: \<^verbatim>\<open>PostGIS.execute\<close>\<close>

text \<open>
  Modelled from the spec: the connection pool is aiopg's, which is not part of the
  repository. \<open>used\<close> are the connections that are out; \<^verbatim>\<open>acquire\<close> adds the
  connection it hands out and \<^verbatim>\<open>release\<close> takes one back. What the database does
  is given by the environment: the outcome of \<^verbatim>\<open>pool.acquire()\<close>, of
  \<^verbatim>\<open>cur.mogrify\<close>, of \<^verbatim>\<open>get_backend_pid()\<close>, of \<^verbatim>\<open>cur.execute\<close> and of
  \<^verbatim>\<open>cur.fetchall()\<close>, and the column names of \<^verbatim>\<open>cur.description\<close>.
\<close>

record db_env =
  acquire :: "exn + nat"
  mogrify :: "exn + string"
  get_backend_pid :: "exn + int"
  cur_execute :: "exn option"
  fetchall :: "exn + string list list"
  description :: "string list"

datatype cursor_event =
    GetBackendPid int
  | SendResponse message
  | Execute string
  | Fetchall
  | ToCsv "string option"

datatype event = Acquire nat | Cursor cursor_event | Release nat

datatype qresult =
    QNone
  | QArray "string list list"
  | QDataFrame "string list" "string list list"
  | QDict "(string \<times> string) list list"

text \<open>
  \<^verbatim>\<open>e.args[0]\<close> and the classes that the handlers catch. \<^verbatim>\<open>UniqueViolation\<close> is an
  \<^verbatim>\<open>IntegrityError\<close>; \<^verbatim>\<open>asyncio.CancelledError\<close> is a \<^verbatim>\<open>BaseException\<close> that
  \<^verbatim>\<open>except Exception\<close> does not catch. Calls of \<^verbatim>\<open>log\<close> and \<^verbatim>\<open>logging.debug\<close> are
  left out.
\<close>

fun args0 :: "exn \<Rightarrow> string" where
  "args0 (MarxanServicesError m) = m"
| "args0 (AttributeError m) = m"
| "args0 (KeyError m) = m"
| "args0 (UnboundLocalError m) = m"
| "args0 (NameError m) = m"
| "args0 (IntegrityError m) = m"
| "args0 (UniqueViolation m) = m"
| "args0 (OperationalError m) = m"
| "args0 (InternalError m) = m"
| "args0 (ValueError m) = m"
| "args0 (TypeError m) = m"
| "args0 (MissingArgumentError m) = m"
| "args0 (OtherException m) = m"
| "args0 e = []"

fun is_IntegrityError :: "exn \<Rightarrow> bool" where
  "is_IntegrityError (IntegrityError m) = True"
| "is_IntegrityError (UniqueViolation m) = True"
| "is_IntegrityError e = False"

fun is_OperationalError :: "exn \<Rightarrow> bool" where
  "is_OperationalError (OperationalError m) = True"
| "is_OperationalError e = False"

fun is_Exception :: "exn \<Rightarrow> bool" where
  "is_Exception CancelledError = False"
| "is_Exception e = True"

fun is_OSError :: "exn \<Rightarrow> bool" where
  "is_OSError ProcessLookupError = True"
| "is_OSError PermissionError = True"
| "is_OSError (WindowsError n) = True"
| "is_OSError e = False"

text \<open>
  The \<^verbatim>\<open>async with conn.cursor() as cur\<close> block of \<^verbatim>\<open>execute\<close>, with the cursor
  calls it makes, in order.
\<close>

definition execute_cursor ::
  "clock \<Rightarrow> db_env \<Rightarrow> string \<Rightarrow> string list option \<Rightarrow> string option \<Rightarrow> string option
     \<Rightarrow> session option \<Rightarrow> (exn + qresult) \<times> session option \<times> cursor_event list" where
  "execute_cursor clk env sql data returnFormat filename socketHandler =
     (case (case data of None \<Rightarrow> Inr sql | Some d \<Rightarrow> mogrify env) of
        Inl e \<Rightarrow> (Inl e, socketHandler, [])
      | Inr sql1 \<Rightarrow>
          (case (case socketHandler of
                   None \<Rightarrow> (None, None, [])
                 | Some h \<Rightarrow>
                     (case get_backend_pid env of
                        Inl e \<Rightarrow> (Some e, Some h, [])
                      | Inr b \<Rightarrow>
                          (let h1 = h\<lparr>self_pid := Some (''q'' @ str_int b)\<rparr>;
                               m = [(''status'', ''pid''), (''pid'', ''q'' @ str_int b)]
                           in case send_response clk h1 m of
                                (r, h2) \<Rightarrow> (r, Some h2, [GetBackendPid b, SendResponse m])))) of
             (Some e, sh, tr) \<Rightarrow> (Inl e, sh, tr)
           | (None, sh, tr) \<Rightarrow>
               (case cur_execute env of
                  Some (UniqueViolation m) \<Rightarrow>
                    (Inl (MarxanServicesError ''That item already exists''), sh, tr @ [Execute sql1])
                | Some (InternalError m) \<Rightarrow>
                    (Inl (MarxanServicesError (''Query stopped: '' @ m)), sh, tr @ [Execute sql1])
                | Some e \<Rightarrow> (Inl e, sh, tr @ [Execute sql1])
                | None \<Rightarrow>
                    (if returnFormat = None then (Inr QNone, sh, tr @ [Execute sql1])
                     else
                       (case fetchall env of
                          Inl e \<Rightarrow> (Inl e, sh, tr @ [Execute sql1, Fetchall])
                        | Inr records \<Rightarrow>
                            (if returnFormat = Some ''Array''
                             then (Inr (QArray records), sh, tr @ [Execute sql1, Fetchall])
                             else if returnFormat = Some ''DataFrame''
                             then (Inr (QDataFrame (description env) records), sh,
                                   tr @ [Execute sql1, Fetchall])
                             else if returnFormat = Some ''Dict''
                             then (Inr (QDict (map (zip (description env)) records)), sh,
                                   tr @ [Execute sql1, Fetchall])
                             else if returnFormat = Some ''File''
                             then (Inr QNone, sh, tr @ [Execute sql1, Fetchall, ToCsv filename])
                             else (Inr QNone, sh, tr @ [Execute sql1, Fetchall])))))))"

text \<open>
  \<^verbatim>\<open>PostGIS.execute\<close>: the \<^verbatim>\<open>try\<close> around \<^verbatim>\<open>acquire\<close>, its handlers, the
  \<^verbatim>\<open>else\<close> block and the \<^verbatim>\<open>finally\<close>. When \<^verbatim>\<open>acquire\<close> raises, \<^verbatim>\<open>conn\<close> is
  unbound in the \<^verbatim>\<open>finally\<close> clause, whose own exception replaces what the handlers
  raised.
\<close>

definition PostGIS_execute ::
  "clock \<Rightarrow> db_env \<Rightarrow> nat list \<Rightarrow> string \<Rightarrow> string list option \<Rightarrow> string option \<Rightarrow> string option
     \<Rightarrow> session option \<Rightarrow> (exn + qresult) \<times> nat list \<times> session option \<times> event list" where
  "PostGIS_execute clk env used sql data returnFormat filename socketHandler =
     (case acquire env of
        Inl e \<Rightarrow>
          (let handled =
                 (if is_IntegrityError e
                  then Some (MarxanServicesError (''Database integrity error: '' @ args0 e))
                  else if is_OperationalError e
                  then (if sublist ''terminating connection due to administrator command'' (args0 e)
                        then Some (MarxanServicesError ''The database server was shutdown'')
                        else None)
                  else if is_Exception e then Some (MarxanServicesError (args0 e))
                  else Some e)
           in (Inl (UnboundLocalError ''conn''), used, socketHandler, []))
      | Inr conn \<Rightarrow>
          (case execute_cursor clk env sql data returnFormat filename socketHandler of
             (r, sh, tr) \<Rightarrow>
               (r, remove1 conn (conn # used), sh, Acquire conn # map Cursor tr @ [Release conn])))"

text \<open>\<^verbatim>\<open>QueryWebSocketHandler.executeQuery\<close>.\<close>

definition QueryWebSocketHandler_executeQuery ::
  "clock \<Rightarrow> db_env \<Rightarrow> nat list \<Rightarrow> session \<Rightarrow> string \<Rightarrow> string list option \<Rightarrow> string option
     \<Rightarrow> (exn + qresult) \<times> nat list \<times> session \<times> event list" where
  "QueryWebSocketHandler_executeQuery clk env used s sql data returnFormat =
     (case PostGIS_execute clk env used sql data returnFormat None (Some s) of
        (r, used1, sh, tr) \<Rightarrow>
          (let s1 = (case sh of Some h \<Rightarrow> h | None \<Rightarrow> s) in
           case r of
             Inl (OperationalError m) \<Rightarrow>
               (case close clk s1 [(''error'', ''Preprocessing stopped by operating system'')] True of
                  (Some e, s2) \<Rightarrow> (Inl e, used1, s2, tr)
                | (None, s2) \<Rightarrow> (Inr QNone, used1, s2, tr))
           | Inl CancelledError \<Rightarrow>
               (case req_user s1 of
                  None \<Rightarrow> (Inl (AttributeError ''user''), used1, s1, tr)
                | Some u \<Rightarrow>
                    (case close clk s1 [(''error'', ''Preprocessing stopped by '' @ u)] True of
                       (Some e, s2) \<Rightarrow> (Inl e, used1, s2, tr)
                     | (None, s2) \<Rightarrow> (Inr QNone, used1, s2, tr)))
           | _ \<Rightarrow> (r, used1, s1, tr)))"

section \<open>The job supervisor: \<^verbatim>\<open>runMarxan\<close> and \<^verbatim>\<open>stopProcess\<close>\<close>

text \<open>
  The server: the run log file, the file system, the table of operating system
  processes and the connections that are out of the pool. A process is absent, not ours
  to signal, or ours. \<^verbatim>\<open>os.kill(pid, SIGKILL)\<close> raises \<^verbatim>\<open>ProcessLookupError\<close> on
  the first, \<^verbatim>\<open>PermissionError\<close> on the second and removes the third; the pid is
  looked up whatever its sign.
\<close>

datatype process = NoProcess | Foreign | Own

record server =
  runlog :: runlog
  files :: filesystem
  procs :: "int \<Rightarrow> process"
  outstanding :: "nat list"

definition os_kill :: "(int \<Rightarrow> process) \<Rightarrow> int \<Rightarrow> exn option \<times> (int \<Rightarrow> process)" where
  "os_kill ps p =
     (case ps p of
        NoProcess \<Rightarrow> (Some ProcessLookupError, ps)
      | Foreign \<Rightarrow> (Some PermissionError, ps)
      | Own \<Rightarrow> (None, ps(p := NoProcess)))"

text \<open>
  \<^verbatim>\<open>runMarxan.logRun\<close>: one line is appended to the file. Read back, it is a row of
  the table when the file has its header line.
\<close>

definition logRun :: "clock \<Rightarrow> runlog \<Rightarrow> int \<Rightarrow> string \<Rightarrow> string \<Rightarrow> int \<Rightarrow> runlog" where
  "logRun clk rl p u pr required =
     (case rl of
        None \<Rightarrow> None
      | Some df \<Rightarrow>
          Some (df @ [\<lparr>pid = p, user = u, project = pr, starttime = stamp clk, endtime = [],
                       runtime = [], runs = ''0/'' @ str_int required, status = ''Running''\<rparr>]))"

text \<open>
  \<^verbatim>\<open>runMarxan.open\<close>. The environment adds the outcome of starting the executable
  (the pid of the child, or the exception of \<^verbatim>\<open>Subprocess\<close>/\<^verbatim>\<open>Popen\<close>) and the value
  of \<^verbatim>\<open>NUMREPS\<close> that \<^verbatim>\<open>_getNumberOfRunsRequired\<close> finds (or what it raises). The
  name \<^verbatim>\<open>WindowsError\<close> exists on Windows only, where it is \<^verbatim>\<open>OSError\<close> and
  \<open>WindowsError n\<close> is the one with \<^verbatim>\<open>winerror == n\<close>: elsewhere the \<^verbatim>\<open>except\<close>
  clause itself raises \<^verbatim>\<open>NameError\<close>. The working directory and the streaming of the
  child's output are left out.
\<close>

record run_env = open_env +
  spawn :: "exn + int"
  numreps :: "exn + int"

text \<open>The error text of a start that finds the project running.\<close>

definition already_running :: "config \<Rightarrow> string" where
  "already_running cfg =
     ''The project is already running. See <a href='' @ [CHR 0x27] @ ERRORS_PAGE cfg
       @ ''#the-project-is-already-running'' @ [CHR 0x27] @ '' target='' @ [CHR 0x27] @ ''blank''
       @ [CHR 0x27] @ ''>here</a>''"

definition runMarxan_open ::
  "config \<Rightarrow> clock \<Rightarrow> run_env \<Rightarrow> server \<Rightarrow> session \<Rightarrow> exn option \<times> server \<times> session" where
  "runMarxan_open cfg clk env srv s =
     (case MarxanWebSocketHandler_open clk env s [(''info'', ''Running Marxan..'')] of
        (Some (MarxanServicesError m), s1) \<Rightarrow> (None, srv, s1)
      | (Some e, s1) \<Rightarrow> (Some e, srv, s1)
      | (None, s1) \<Rightarrow>
          (case (req_user s1, req_project s1) of
             (Some u, Some p) \<Rightarrow>
               (case isProjectRunning cfg (runlog srv) u p of
                  Inl e \<Rightarrow> (Some e, srv, s1)
                | Inr True \<Rightarrow>
                    (case close clk s1 [(''error'', already_running cfg), (''info'', [])] True of
                       (r, s2) \<Rightarrow> (r, srv, s2))
                | Inr False \<Rightarrow>
                    (if path_exists (files srv) (folder_project_of cfg u p) then
                       (let srv1 = srv\<lparr>files := deleteAllFiles (files srv) (folder_output_of cfg u p)\<rparr> in
                        case spawn env of
                          Inl e \<Rightarrow>
                            (if windows cfg then
                               (if is_OSError e then
                                  (if e = WindowsError 1260 then
                                     (case close clk s1
                                             [(''error'', ''The executable '' @ [CHR 0x27]
                                                 @ MARXAN_EXECUTABLE cfg @ [CHR 0x27]
                                                 @ '' is blocked by group policy. For more information, contact your system administrator.'')]
                                             True of
                                        (r, s2) \<Rightarrow> (r, srv1, s2))
                                   else (None, srv1, s1))
                                else (Some e, srv1, s1))
                             else (Some (NameError ''WindowsError''), srv1, s1))
                        | Inr child \<Rightarrow>
                            (let srv2 = srv1\<lparr>procs := (procs srv1)(child := Own)\<rparr>;
                                 s2 = s1\<lparr>marxanProcess := Some child\<rparr>
                             in case numreps env of
                                  Inl e \<Rightarrow> (Some e, srv2, s2)
                                | Inr required \<Rightarrow>
                                    (let s3 = s2\<lparr>numRunsRequired := Some required\<rparr>;
                                         srv3 = (if u \<noteq> ''_clumping''
                                                 then srv2\<lparr>runlog := logRun clk (runlog srv2) child u p required\<rparr>
                                                 else srv2)
                                     in case send_response clk s3
                                               [(''pid'', ''m'' @ str_int child), (''status'', ''pid'')] of
                                          (r, s4) \<Rightarrow> (r, srv3, s4))))
                     else
                       (case close clk s1
                               [(''error'', ''Project '' @ [CHR 0x27] @ p @ [CHR 0x27] @ '' does not exist''),
                                (''project'', p), (''user'', u)] True of
                          (r, s2) \<Rightarrow> (r, srv, s2))))
           | _ \<Rightarrow> (Some (MissingArgumentError ''user''), srv, s1)))"

text \<open>
  \<^verbatim>\<open>runMarxan.finishOutput\<close>, the exit callback of the child. \<^verbatim>\<open>self.startTime\<close> is
  a datetime, which is true as a condition.
\<close>

definition finishOutput ::
  "config \<Rightarrow> clock \<Rightarrow> server \<Rightarrow> session \<Rightarrow> exn option \<times> server \<times> session" where
  "finishOutput cfg clk srv s =
     (case (marxanProcess s, req_user s, req_project s) of
        (Some child, Some u, Some p) \<Rightarrow>
          (if u \<noteq> ''_clumping'' then
             (case numRunsRequired s of
                None \<Rightarrow> (Some (AttributeError ''numRunsRequired''), srv, s)
              | Some required \<Rightarrow>
                  (let numRunsCompleted =
                         int (getNumberOfRunsCompleted (files srv) (folder_output_of cfg u p))
                   in case (if numRunsCompleted = required then
                              (case updateRunLog cfg (files srv) clk (runlog srv) child
                                      (Some (startTime s)) (Some numRunsCompleted) (Some required)
                                      ''Completed'' of
                                 Inl e \<Rightarrow> Inl e
                               | Inr (rl, actualStatus) \<Rightarrow>
                                   Inr (rl, [(''info'', ''Run completed''), (''project'', p),
                                             (''user'', u)]))
                            else
                              (case updateRunLog cfg (files srv) clk (runlog srv) child
                                      (Some (startTime s)) (Some numRunsCompleted) (Some required)
                                      ''Killed'' of
                                 Inl e \<Rightarrow> Inl e
                               | Inr (rl, actualStatus) \<Rightarrow>
                                   (if actualStatus = ''Stopped''
                                    then Inr (rl, [(''error'', ''Run stopped by '' @ u),
                                                   (''project'', p), (''user'', u)])
                                    else Inr (rl, [(''error'', ''Run stopped by operating system''),
                                                   (''project'', p), (''user'', u)])))) of
                        Inr (rl, closeMessage) \<Rightarrow>
                          (case close clk s closeMessage True of
                             (r, s1) \<Rightarrow> (r, srv\<lparr>runlog := rl\<rparr>, s1))
                      | Inl (MarxanServicesError m) \<Rightarrow>
                          (case close clk s [(''error'', m)] True of (r, s1) \<Rightarrow> (r, srv, s1))
                      | Inl e \<Rightarrow> (Some e, srv, s)))
           else
             (case close clk s [(''info'', ''Run completed''), (''project'', p), (''user'', u)] True of
                (r, s1) \<Rightarrow> (r, srv, s1)))
      | _ \<Rightarrow> (Some (AttributeError ''runMarxan''), srv, s))"

text \<open>
  \<^verbatim>\<open>int(s)\<close> on text: white space around, an optional sign, then ASCII digits, with
  single underscores between digits allowed; anything else raises \<^verbatim>\<open>ValueError\<close>.
\<close>

definition is_space :: "char \<Rightarrow> bool" where
  "is_space c \<longleftrightarrow>
     c \<in> set [CHR 0x09, CHR 0x0A, CHR 0x0B, CHR 0x0C, CHR 0x0D, CHR 0x1C, CHR 0x1D, CHR 0x1E,
              CHR 0x1F, CHR 0x20]"

definition is_digit :: "char \<Rightarrow> bool" where
  "is_digit c \<longleftrightarrow> c \<in> set ''0123456789''"

definition digit_val :: "char \<Rightarrow> nat" where
  "digit_val c = of_char c - 48"

fun parse_digits :: "nat \<Rightarrow> string \<Rightarrow> nat option" where
  "parse_digits acc [] = Some acc"
| "parse_digits acc [c] = (if is_digit c then Some (10 * acc + digit_val c) else None)"
| "parse_digits acc (c # d # cs) =
     (if is_digit c then parse_digits (10 * acc + digit_val c) (d # cs)
      else if c = CHR ''_'' \<and> is_digit d then parse_digits acc (d # cs)
      else None)"

definition python_int :: "string \<Rightarrow> exn + int" where
  "python_int s =
     (let t = rev (dropWhile is_space (rev (dropWhile is_space s)));
          neg = (take 1 t = ''-'');
          body = (if take 1 t = ''-'' \<or> take 1 t = ''+'' then drop 1 t else t)
      in if body \<noteq> [] \<and> is_digit (hd body) then
           (case parse_digits 0 body of
              None \<Rightarrow> Inl (ValueError s)
            | Some n \<Rightarrow> Inr (if neg then - int n else int n))
         else Inl (ValueError s))"

text \<open>
  \<^verbatim>\<open>stopProcess.get\<close>. The answer of the REST handler is the \<^verbatim>\<open>info\<close> it sends or
  the \<^verbatim>\<open>error\<close> that \<^verbatim>\<open>_raiseError\<close> sends; an exception that no handler catches
  leaves the method. The inner \<^verbatim>\<open>try\<close> block comes first, then its handlers:
  \<^verbatim>\<open>PermissionError\<close> is an \<^verbatim>\<open>OSError\<close>, so the first \<^verbatim>\<open>except\<close> clause takes it.
\<close>

datatype response = Info string | Error string

definition stopProcess_get ::
  "config \<Rightarrow> clock \<Rightarrow> db_env \<Rightarrow> server \<Rightarrow> string option \<Rightarrow> (exn + response) \<times> server" where
  "stopProcess_get cfg clk env srv arg =
     (case arg of
        None \<Rightarrow> (Inr (Error ''Missing input argument:pid''), srv)
      | Some a \<Rightarrow>
          (let p = drop 1 a in
           case (if take 1 a = ''m'' then
                   (case python_int p of
                      Inl e \<Rightarrow> (Some e, srv)
                    | Inr n \<Rightarrow>
                        (case updateRunLog cfg (files srv) clk (runlog srv) n None None None
                                ''Stopped'' of
                           Inl e \<Rightarrow> (Some e, srv)
                         | Inr (rl, st) \<Rightarrow>
                             (case os_kill (procs srv) n of
                                (r, ps) \<Rightarrow> (r, srv\<lparr>runlog := rl, procs := ps\<rparr>))))
                 else
                   (case PostGIS_execute clk env (outstanding srv) ''SELECT pg_cancel_backend(%s);''
                           (Some [p]) None None None of
                      (r, used1, sh, tr) \<Rightarrow>
                        ((case r of Inl e \<Rightarrow> Some e | Inr res \<Rightarrow> None), srv\<lparr>outstanding := used1\<rparr>))) of
             (Some e, srv1) \<Rightarrow>
               (if is_OSError e then (Inr (Error ''The pid does not exist''), srv1)
                else (case e of
                        MarxanServicesError m \<Rightarrow> (Inr (Error m), srv1)
                      | _ \<Rightarrow> (Inl e, srv1)))
           | (None, srv1) \<Rightarrow>
               (Inr (Info (''pid '' @ [CHR 0x27] @ p @ [CHR 0x27] @ '' terminated'')), srv1)))"

section \<open>Notions used to state the properties\<close>

text \<open>The rows of a run log; a log without its table has none.\<close>

definition rows_of :: "runlog \<Rightarrow> row list" where
  "rows_of rl = (case rl of None \<Rightarrow> [] | Some df \<Rightarrow> df)"

text \<open>Two rows that agree on every column but \<open>runs\<close>.\<close>

definition same_but_runs :: "row \<Rightarrow> row \<Rightarrow> bool" where
  "same_but_runs a b \<longleftrightarrow>
     pid b = pid a \<and> user b = user a \<and> project b = project a \<and> starttime b = starttime a \<and>
     endtime b = endtime a \<and> runtime b = runtime a \<and> status b = status a"

text \<open>What the three assignments of \<^verbatim>\<open>_updateRunLog\<close> make of the row they address.\<close>

definition updated_row ::
  "clock \<Rightarrow> int option \<Rightarrow> int option \<Rightarrow> int option \<Rightarrow> string \<Rightarrow> row \<Rightarrow> row" where
  "updated_row clk start completed required st r =
     (let r1 = (case start of
                  None \<Rightarrow> r
                | Some t \<Rightarrow> r\<lparr>endtime := stamp clk, runtime := str_int (seconds (now clk) t) @ ''s''\<rparr>);
          r2 = (if truthy completed
                then r1\<lparr>runs := str_opt completed @ ''/'' @ str_opt required\<rparr>
                else r1)
      in if status r2 = ''Running'' then r2\<lparr>status := st\<rparr> else r2)"

text \<open>
  The users and projects of the running rows are read as \<^verbatim>\<open>str\<close>: the run logs on
  which \<^verbatim>\<open>_getRunLogs\<close> can build the paths of the output folders.
\<close>

definition str_names :: "config \<Rightarrow> row list \<Rightarrow> bool" where
  "str_names cfg df \<longleftrightarrow>
     list_all (\<lambda>r. as_str cfg (map user df) (user r) \<and> as_str cfg (map project df) (project r))
       (filter (\<lambda>r. status r = ''Running'') df)"

text \<open>Row \<open>i\<close> is the only row with its pid.\<close>

definition sole_row :: "row list \<Rightarrow> nat \<Rightarrow> bool" where
  "sole_row df i \<longleftrightarrow> list_all (\<lambda>k. pid (df ! k) = pid (df ! i) \<longrightarrow> k = i) [0..<length df]"

text \<open>What a clean \<^verbatim>\<open>close\<close> hands to \<^verbatim>\<open>logging.warning\<close>.\<close>

definition error_lines :: "message \<Rightarrow> string list" where
  "error_lines m = (case map_of m ''error'' of Some e \<Rightarrow> [e] | None \<Rightarrow> [])"

text \<open>A session after its final message: channel gone, flag set, no ping running.\<close>

definition finalized :: "session \<Rightarrow> bool" where
  "finalized s \<longleftrightarrow> \<not> ws_connection s \<and> clientSentFinalMsg s = Some True \<and> pc s \<noteq> Some True"

text \<open>Two states of a session with the same request and the same child process.\<close>

definition same_request :: "session \<Rightarrow> session \<Rightarrow> bool" where
  "same_request s s' \<longleftrightarrow>
     req_user s' = req_user s \<and> req_project s' = req_project s \<and> marxanProcess s' = marxanProcess s"

section \<open>Concrete inputs\<close>

text \<open>
  A small installation used to run the definitions: one user \<open>admin\<close> with the projects
  \<open>p1\<close> (one finished run and the solver's log in its output folder), \<open>p2\<close> (two
  finished runs), \<open>123\<close> and \<open>NA\<close> (one finished run each). The patterns that are
  asked for end in a star and have no other pattern character; they match the files of
  the folder whose names start as the pattern does.
\<close>

definition ex_files :: "string list" where
  "ex_files =
     [''/srv/users/admin/p1/output/output_r00001.csv'', ''/srv/users/admin/p1/output/output_log.dat'',
      ''/srv/users/admin/p1/input.dat'',
      ''/srv/users/admin/p2/output/output_r00001.csv'', ''/srv/users/admin/p2/output/output_r00002.csv'',
      ''/srv/users/admin/123/output/output_r00001.csv'',
      ''/srv/users/admin/NA/output/output_r00001.csv'']"

definition ex_folders :: "string list" where
  "ex_folders =
     [''/srv/users/admin/p1/'', ''/srv/users/admin/p1/output/'', ''/srv/users/admin/p2/'',
      ''/srv/users/admin/p2/output/'', ''/srv/users/admin/123/'', ''/srv/users/admin/123/output/'',
      ''/srv/users/admin/NA/'', ''/srv/users/admin/NA/output/'']"

definition ex_fs :: filesystem where
  "ex_fs =
     \<lparr>path_exists = (\<lambda>p. p \<in> set ex_folders \<or> p \<in> set ex_files),
      glob = (\<lambda>pat. filter (\<lambda>f. pat \<noteq> [] \<and> last pat = CHR ''*'' \<and> prefix (butlast pat) f
                                  \<and> CHR ''/'' \<notin> set (drop (length pat - 1) f)) ex_files)\<rparr>"

text \<open>
  What pandas does with the names used here: the missing values are its default ones,
  the numbers are the decimal integers (it reads more texts as numbers, none of which
  occurs below), written back without leading zeros, and with \<open>.0\<close> in a column that has
  a missing value.
\<close>

definition ex_na :: "string \<Rightarrow> bool" where
  "ex_na t \<longleftrightarrow>
     t \<in> set [[], ''#N/A'', ''#N/A N/A'', ''#NA'', ''-1.#IND'', ''-1.#QNAN'', ''-NaN'', ''-nan'',
              ''1.#IND'', ''1.#QNAN'', ''<NA>'', ''N/A'', ''NA'', ''NULL'', ''NaN'', ''n/a'', ''nan'',
              ''null'']"

definition ex_number :: "string \<Rightarrow> bool" where
  "ex_number t \<longleftrightarrow> t \<noteq> [] \<and> list_all is_digit t"

definition ex_bool :: "string \<Rightarrow> bool" where
  "ex_bool t \<longleftrightarrow> t \<in> set [''True'', ''TRUE'', ''true'', ''False'', ''FALSE'', ''false'']"

definition ex_repr :: "string list \<Rightarrow> string \<Rightarrow> string" where
  "ex_repr col t =
     (if ex_bool t then (if t \<in> set [''True'', ''TRUE'', ''true''] then ''True'' else ''False'')
      else (case parse_digits 0 t of
              None \<Rightarrow> t
            | Some n \<Rightarrow> str_nat n @ (if list_ex ex_na col then ''.0'' else [])))"

definition ex_cfg :: config where
  "ex_cfg = \<lparr>MARXAN_USERS_FOLDER = ''/srv/users/'', os_sep = ''/'', ERRORS_PAGE = ''errors.html'',
             MARXAN_EXECUTABLE = ''/srv/marxan'', windows = False,
             is_na = ex_na, is_number = ex_number, is_bool = ex_bool, repr_cell = ex_repr\<rparr>"

definition ex_clk :: clock where
  "ex_clk = \<lparr>now = 100, stamp = ''04/11/26 10:00:00''\<rparr>"

definition ex_row :: row where
  "ex_row = \<lparr>pid = 7, user = ''admin'', project = ''p1'', starttime = ''04/11/26 09:59:00'',
             endtime = [], runtime = [], runs = ''0/3'', status = ''Running''\<rparr>"

definition ex_session :: session where
  "ex_session = \<lparr>uri = ''/marxan-server/runMarxan'', req_user = Some ''admin'',
                 req_project = Some ''p1'', startTime = 0, self_pid = None, marxanProcess = None,
                 numRunsRequired = None, pc = None, clientSentFinalMsg = None,
                 ws_connection = True, written = [], warnings = []\<rparr>"

definition ex_db :: db_env where
  "ex_db = \<lparr>acquire = Inr 1, mogrify = Inr ''SELECT 1'', get_backend_pid = Inr 1234,
            cur_execute = None, fetchall = Inr [[''a'']], description = [''c'']\<rparr>"

definition ex_row2 :: row where
  "ex_row2 = \<lparr>pid = 8, user = ''admin'', project = ''p2'', starttime = ''04/11/26 09:58:00'',
              endtime = [], runtime = [], runs = ''0/5'', status = ''Running''\<rparr>"

text \<open>The session of the job of \<open>ex_row\<close> once \<^verbatim>\<open>runMarxan.open\<close> has returned.\<close>

definition ex_job :: session where
  "ex_job = ex_session\<lparr>marxanProcess := Some 7, numRunsRequired := Some 3, pc := Some True,
              clientSentFinalMsg := Some False\<rparr>"

definition ex_srv :: server where
  "ex_srv = \<lparr>runlog = Some [ex_row], files = ex_fs,
             procs = (\<lambda>p. if p = 7 then Own else NoProcess), outstanding = []\<rparr>"

text \<open>A second job, of project \<open>p2\<close>, which asks for the two runs that are on disk.\<close>

definition ex_job2 :: session where
  "ex_job2 = ex_session\<lparr>req_project := Some ''p2'', marxanProcess := Some 8,
               numRunsRequired := Some 2, pc := Some True, clientSentFinalMsg := Some False\<rparr>"

definition ex_env :: run_env where
  "ex_env = \<lparr>getProjectData = None, http_error = None, spawn = Inr 9, numreps = Inr 3\<rparr>"

text \<open>The server with the job of \<open>p2\<close> running.\<close>

definition ex_srv2 :: server where
  "ex_srv2 = ex_srv\<lparr>runlog := Some [ex_row2\<lparr>runs := ''0/2''\<rparr>]\<rparr>"

text \<open>A run log whose only row is the running job of the project \<open>123\<close>.\<close>

definition ex_row123 :: row where
  "ex_row123 = ex_row\<lparr>project := ''123''\<rparr>"

definition ex_srv123 :: server where
  "ex_srv123 = ex_srv\<lparr>runlog := Some [ex_row123]\<rparr>"

section \<open>Properties of the query executor\<close>

lemma count_list_map_Cursor [simp]:
  "count_list (map Cursor t) (Release c) = 0" "count_list (map Cursor t) (Acquire c) = 0"
  by (induction t) simp_all

lemma PostGIS_execute_acquired:
  "acquire env = Inr c \<Longrightarrow>
     PostGIS_execute clk env conns sql data rf fn sh =
       (case execute_cursor clk env sql data rf fn sh of
          (r, sh', t) \<Rightarrow> (r, conns, sh', Acquire c # map Cursor t @ [Release c]))"
  by (simp add: PostGIS_execute_def)

lemma PostGIS_execute_not_acquired:
  "acquire env = Inl e \<Longrightarrow>
     PostGIS_execute clk env conns sql data rf fn sh =
       (Inl (UnboundLocalError ''conn''), conns, sh, [])"
  by (simp add: PostGIS_execute_def Let_def)

text \<open>
  C4. Whatever the database does (every outcome of acquiring, binding, reading the backend
  pid, publishing, executing and fetching), \<^verbatim>\<open>execute\<close> leaves the connections that
  are out of the pool as they were before the call. When a connection \<open>c\<close> was acquired,
  the pool sees exactly \<open>Acquire c\<close>, the cursor calls, \<open>Release c\<close>: one release. When
  \<^verbatim>\<open>acquire\<close> raised, nothing was taken and nothing is released.
\<close>

theorem execute_releases_once:
  assumes "PostGIS_execute clk env conns sql data rf fn sh = (r, conns_after, sh', tr)"
  shows "conns_after = conns \<and>
         (case acquire env of
            Inr c \<Rightarrow> (\<exists>t. tr = Acquire c # map Cursor t @ [Release c])
                       \<and> count_list tr (Release c) = 1 \<and> count_list tr (Acquire c) = 1
          | Inl e \<Rightarrow> tr = [] \<and> r = Inl (UnboundLocalError ''conn''))"
proof (cases "acquire env")
  case (Inl e)
  with assms show ?thesis by (simp add: PostGIS_execute_not_acquired)
next
  case (Inr c)
  obtain r0 sh0 t where b: "execute_cursor clk env sql data rf fn sh = (r0, sh0, t)"
    by (cases "execute_cursor clk env sql data rf fn sh") auto
  from assms Inr b have "conns_after = conns" "tr = Acquire c # map Cursor t @ [Release c]"
    by (simp_all add: PostGIS_execute_acquired)
  with Inr show ?thesis by auto
qed

theorem execute_releases_once_witness:
  "PostGIS_execute ex_clk ex_db [5] ''SELECT 1'' None (Some ''Array'') None None =
     (Inr (QArray [[''a'']]), [5], None,
      [Acquire 1, Cursor (Execute ''SELECT 1''), Cursor Fetchall, Release 1])
   \<and> count_list [Acquire 1, Cursor (Execute ''SELECT 1''), Cursor Fetchall, Release 1] (Release 1) = 1"
proof -
  have run: "PostGIS_execute ex_clk ex_db [5] ''SELECT 1'' None (Some ''Array'') None None =
     (Inr (QArray [[''a'']]), [5], None,
      [Acquire 1, Cursor (Execute ''SELECT 1''), Cursor Fetchall, Release 1])"
    by (simp add: PostGIS_execute_def execute_cursor_def ex_db_def)
  from execute_releases_once [OF run] have
    "count_list [Acquire 1, Cursor (Execute ''SELECT 1''), Cursor Fetchall, Release 1] (Release 1) = 1"
    by (simp add: ex_db_def)
  with run show ?thesis by simp
qed

text \<open>
  C7. With a session attached, every run of \<^verbatim>\<open>execute\<close> that reaches
  \<^verbatim>\<open>cur.execute\<close> has, before it and in this order, read the backend pid \<open>b\<close> of the
  connection and called \<^verbatim>\<open>send_response\<close> with the message whose \<open>pid\<close> is \<open>q\<close>
  followed by \<open>b\<close>; the statement is executed once, after both, and the session's
  \<^verbatim>\<open>pid\<close> attribute holds the tagged identifier.
\<close>

theorem pid_published_before_execute:
  assumes "PostGIS_execute clk env conns sql data rf fn (Some h) = (r, conns_after, sh, tr)"
    and "Cursor (Execute q) \<in> set tr"
  shows "\<exists>c b rest h'.
           get_backend_pid env = Inr b
           \<and> tr = Acquire c # Cursor (GetBackendPid b)
                  # Cursor (SendResponse [(''status'', ''pid''), (''pid'', ''q'' @ str_int b)])
                  # Cursor (Execute q) # rest
           \<and> Cursor (Execute q) \<notin> set rest
           \<and> sh = Some h' \<and> self_pid h' = Some (''q'' @ str_int b)"
proof (cases "acquire env")
  case (Inl e)
  with assms show ?thesis by (simp add: PostGIS_execute_not_acquired)
next
  case (Inr c)
  obtain r0 sh0 t where b: "execute_cursor clk env sql data rf fn (Some h) = (r0, sh0, t)"
    by (cases "execute_cursor clk env sql data rf fn (Some h)") auto
  from assms(1) Inr b have tr: "tr = Acquire c # map Cursor t @ [Release c]" and sh: "sh = sh0"
    by (simp_all add: PostGIS_execute_acquired)
  from assms(2) tr have q: "Execute q \<in> set t" by auto
  from b q obtain bp rest where
    bp: "get_backend_pid env = Inr bp"
    and t: "t = GetBackendPid bp # SendResponse [(''status'', ''pid''), (''pid'', ''q'' @ str_int bp)]
              # Execute q # rest"
    and rest: "Execute q \<notin> set rest"
    and sh0: "sh0 = Some (snd (send_response clk (h\<lparr>self_pid := Some (''q'' @ str_int bp)\<rparr>)
                [(''status'', ''pid''), (''pid'', ''q'' @ str_int bp)]))"
    by (auto simp: execute_cursor_def Let_def
          split: sum.splits option.splits prod.splits exn.splits if_splits)
  have pid: "self_pid (snd (send_response clk (h\<lparr>self_pid := Some (''q'' @ str_int bp)\<rparr>)
                [(''status'', ''pid''), (''pid'', ''q'' @ str_int bp)])) = Some (''q'' @ str_int bp)"
    by (simp add: send_response_def close_not_clean_def stop_pc_def Let_def split: option.splits)
  from rest have "Cursor (Execute q) \<notin> set (map Cursor rest @ [Release c])" by auto
  with bp tr t sh sh0 pid show ?thesis by simp
qed

theorem pid_published_before_execute_witness:
  "PostGIS_execute ex_clk ex_db [] ''SELECT 1'' None None None (Some ex_session) =
     (Inr QNone, [],
      Some (ex_session\<lparr>self_pid := Some ''q1234'',
              written := [[(''status'', ''pid''), (''pid'', ''q1234''), (''elapsedtime'', ''100s''),
                           (''user'', ''admin'')]]\<rparr>),
      [Acquire 1, Cursor (GetBackendPid 1234),
       Cursor (SendResponse [(''status'', ''pid''), (''pid'', ''q1234'')]),
       Cursor (Execute ''SELECT 1''), Release 1])
   \<and> get_backend_pid ex_db = Inr 1234"
proof -
  have n: "str_int 1234 = ''1234''" by code_simp
  have e: "str_int (seconds 100 0) = ''100''" by code_simp
  have run: "PostGIS_execute ex_clk ex_db [] ''SELECT 1'' None None None (Some ex_session) =
     (Inr QNone, [],
      Some (ex_session\<lparr>self_pid := Some ''q1234'',
              written := [[(''status'', ''pid''), (''pid'', ''q1234''), (''elapsedtime'', ''100s''),
                           (''user'', ''admin'')]]\<rparr>),
      [Acquire 1, Cursor (GetBackendPid 1234),
       Cursor (SendResponse [(''status'', ''pid''), (''pid'', ''q1234'')]),
       Cursor (Execute ''SELECT 1''), Release 1])"
    by (simp add: PostGIS_execute_def execute_cursor_def send_response_def enriched_def
          ex_db_def ex_session_def ex_clk_def n e)
  have "Cursor (Execute ''SELECT 1'') \<in> set [Acquire 1, Cursor (GetBackendPid 1234),
       Cursor (SendResponse [(''status'', ''pid''), (''pid'', ''q1234'')]),
       Cursor (Execute ''SELECT 1''), Release 1]" by simp
  from pid_published_before_execute [OF run this] have "get_backend_pid ex_db = Inr 1234"
    by (auto simp: n)
  with run show ?thesis by simp
qed

section \<open>Properties of the run log\<close>

lemma index_of_pid_None: "index_of_pid p df = None \<longleftrightarrow> p \<notin> pid ` set df"
  by (induction df) auto

lemma index_of_pid_Some:
  "index_of_pid p df = Some i \<Longrightarrow> i < length df \<and> pid (df ! i) = p \<and> (\<forall>j<i. pid (df ! j) \<noteq> p)"
proof (induction df arbitrary: i)
  case Nil
  then show ?case by simp
next
  case (Cons r rs)
  show ?case
  proof (cases "pid r = p")
    case True
    with Cons.prems show ?thesis by simp
  next
    case False
    with Cons.prems obtain k where k: "index_of_pid p rs = Some k" "i = Suc k" by auto
    from Cons.IH[OF k(1)] have ih: "k < length rs" "pid (rs ! k) = p" "\<forall>j<k. pid (rs ! j) \<noteq> p"
      by simp_all
    have "\<forall>j<Suc k. pid ((r # rs) ! j) \<noteq> p"
    proof (intro allI impI)
      fix j assume "j < Suc k"
      then show "pid ((r # rs) ! j) \<noteq> p"
        using False ih(3) by (cases j) simp_all
    qed
    with ih k(2) show ?thesis by simp
  qed
qed

lemma index_of_pid_cong: "map pid df' = map pid df \<Longrightarrow> index_of_pid p df' = index_of_pid p df"
proof (induction df arbitrary: df')
  case Nil
  then show ?case by simp
next
  case (Cons r rs)
  from Cons.prems obtain r' rs' where d: "df' = r' # rs'" "pid r' = pid r" "map pid rs' = map pid rs"
    by (cases df') auto
  from Cons.IH[OF d(3)] d(1,2) show ?case by simp
qed

lemma same_but_runs_refl: "same_but_runs a a"
  by (simp add: same_but_runs_def)

lemma same_but_runs_trans: "same_but_runs a b \<Longrightarrow> same_but_runs b c \<Longrightarrow> same_but_runs a c"
  by (simp add: same_but_runs_def)

lemma same_but_runs_update:
  "i < length df \<Longrightarrow> list_all2 same_but_runs df (df[i := (df ! i)\<lparr>runs := x\<rparr>])"
  by (simp add: list_all2_conv_all_nth nth_list_update same_but_runs_def)

lemma same_but_runs_pids: "list_all2 same_but_runs df df' \<Longrightarrow> map pid df' = map pid df"
  by (induction rule: list_all2_induct) (simp_all add: same_but_runs_def)

lemma same_but_runs_users: "list_all2 same_but_runs df df' \<Longrightarrow> map user df' = map user df"
  by (induction rule: list_all2_induct) (simp_all add: same_but_runs_def)

lemma same_but_runs_projects: "list_all2 same_but_runs df df' \<Longrightarrow> map project df' = map project df"
  by (induction rule: list_all2_induct) (simp_all add: same_but_runs_def)

text \<open>One turn of the loop of \<^verbatim>\<open>_getRunLogs\<close>.\<close>

lemma refresh_runs_Cons:
  assumes "refresh_runs cfg fs us ps (r # rs) df = Inr df'"
  obtains i where "as_str cfg us (user r)" "as_str cfg ps (project r)"
    "index_of_pid (pid r) df = Some i"
    "refresh_runs cfg fs us ps rs
       (df[i := (df ! i)\<lparr>runs :=
          str_nat (getNumberOfRunsCompleted fs (folder_output_of cfg (user r) (project r)))
            @ from_slash (runs (df ! i))\<rparr>]) = Inr df'"
  using assms
  by (auto simp: cell_def split: option.splits if_splits)

text \<open>The loop touches the \<open>runs\<close> column only.\<close>

lemma refresh_runs_frame:
  "refresh_runs cfg fs us ps rs df = Inr df' \<Longrightarrow> list_all2 same_but_runs df df'"
proof (induction rs arbitrary: df)
  case Nil
  then show ?case by (simp add: list_all2_refl same_but_runs_refl)
next
  case (Cons r rs)
  from Cons.prems obtain i x where i: "index_of_pid (pid r) df = Some i"
    and r: "refresh_runs cfg fs us ps rs (df[i := (df ! i)\<lparr>runs := x\<rparr>]) = Inr df'"
    by (rule refresh_runs_Cons)
  from Cons.IH[OF r] have 1: "list_all2 same_but_runs (df[i := (df ! i)\<lparr>runs := x\<rparr>]) df'" .
  from index_of_pid_Some[OF i] have "i < length df" by simp
  from same_but_runs_update[OF this]
  have 2: "list_all2 same_but_runs df (df[i := (df ! i)\<lparr>runs := x\<rparr>])" .
  from 2 1 show ?case
    by (rule list_all2_trans[rotated]) (rule same_but_runs_trans)
qed

text \<open>It fails only on a running row whose user or project is not a \<^verbatim>\<open>str\<close>.\<close>

lemma refresh_runs_total:
  "pid ` set rs \<subseteq> pid ` set df \<Longrightarrow>
   list_all (\<lambda>r. as_str cfg us (user r) \<and> as_str cfg ps (project r)) rs \<Longrightarrow>
   \<exists>df'. refresh_runs cfg fs us ps rs df = Inr df'"
proof (induction rs arbitrary: df)
  case Nil
  then show ?case by simp
next
  case (Cons r rs)
  from Cons.prems(1) have "pid r \<in> pid ` set df" by simp
  then obtain i where i: "index_of_pid (pid r) df = Some i"
    using index_of_pid_None[of "pid r" df] by (cases "index_of_pid (pid r) df") auto
  define df1 where
    "df1 = df[i := (df ! i)\<lparr>runs :=
       str_nat (getNumberOfRunsCompleted fs (folder_output_of cfg (user r) (project r)))
         @ from_slash (runs (df ! i))\<rparr>]"
  from index_of_pid_Some[OF i] have il: "i < length df" by simp
  have "map pid df1 = map pid df"
    unfolding df1_def by (rule same_but_runs_pids) (rule same_but_runs_update[OF il])
  then have "pid ` set df1 = pid ` set df" by (metis set_map)
  with Cons.prems(1) have 1: "pid ` set rs \<subseteq> pid ` set df1" by simp
  from Cons.prems(2) have 2: "list_all (\<lambda>r. as_str cfg us (user r) \<and> as_str cfg ps (project r)) rs"
    and s: "as_str cfg us (user r)" "as_str cfg ps (project r)" by simp_all
  from Cons.IH[OF 1 2] obtain df' where "refresh_runs cfg fs us ps rs df1 = Inr df'" by blast
  with i s show ?case by (simp add: df1_def cell_def)
qed

lemma refresh_runs_str:
  "refresh_runs cfg fs us ps rs df = Inr df' \<Longrightarrow>
   list_all (\<lambda>r. as_str cfg us (user r) \<and> as_str cfg ps (project r)) rs"
proof (induction rs arbitrary: df)
  case Nil
  then show ?case by simp
next
  case (Cons r rs)
  from Cons.prems obtain i x where s: "as_str cfg us (user r)" "as_str cfg ps (project r)"
    and r: "refresh_runs cfg fs us ps rs (df[i := (df ! i)\<lparr>runs := x\<rparr>]) = Inr df'"
    by (rule refresh_runs_Cons)
  from Cons.IH[OF r] s show ?case by simp
qed

text \<open>A row keeps its \<open>runs\<close> unless a running row has its pid.\<close>

lemma refresh_runs_runs:
  "refresh_runs cfg fs us ps rs df = Inr df' \<Longrightarrow> j < length df \<Longrightarrow> pid (df ! j) \<notin> pid ` set rs
     \<Longrightarrow> runs (df' ! j) = runs (df ! j)"
proof (induction rs arbitrary: df)
  case Nil
  then show ?case by simp
next
  case (Cons r rs)
  from Cons.prems(1) obtain i x where i: "index_of_pid (pid r) df = Some i"
    and r1: "refresh_runs cfg fs us ps rs (df[i := (df ! i)\<lparr>runs := x\<rparr>]) = Inr df'"
    by (rule refresh_runs_Cons)
  define df1 where "df1 = df[i := (df ! i)\<lparr>runs := x\<rparr>]"
  from index_of_pid_Some[OF i] have il: "i < length df" and ip: "pid (df ! i) = pid r" by simp_all
  from Cons.prems(3) ip have "i \<noteq> j" by auto
  then have same: "df1 ! j = df ! j" by (simp add: df1_def)
  have len: "j < length df1" using Cons.prems(2) by (simp add: df1_def)
  from Cons.prems(3) same have "pid (df1 ! j) \<notin> pid ` set rs" by simp
  from Cons.IH[OF r1[folded df1_def] len this] same show ?case by simp
qed

text \<open>
  The first row with a pid, when at most one running row has that pid: its \<open>runs\<close> get the
  number of output files of that running row in front.
\<close>

lemma refresh_runs_first:
  "refresh_runs cfg fs us ps rs df = Inr df' \<Longrightarrow> index_of_pid q df = Some j \<Longrightarrow>
   length (filter (\<lambda>r. pid r = q) rs) \<le> 1 \<Longrightarrow>
   runs (df' ! j) =
     (case filter (\<lambda>r. pid r = q) rs of
        [] \<Rightarrow> runs (df ! j)
      | r # x \<Rightarrow> str_nat (getNumberOfRunsCompleted fs (folder_output_of cfg (user r) (project r)))
                  @ from_slash (runs (df ! j)))"
proof (induction rs arbitrary: df)
  case Nil
  then show ?case by simp
next
  case (Cons r rs)
  define x where "x = (\<lambda>i. str_nat (getNumberOfRunsCompleted fs (folder_output_of cfg (user r) (project r)))
            @ from_slash (runs (df ! i)))"
  from Cons.prems(1) obtain i where i: "index_of_pid (pid r) df = Some i"
    and r1: "refresh_runs cfg fs us ps rs (df[i := (df ! i)\<lparr>runs := x i\<rparr>]) = Inr df'"
    unfolding x_def by (rule refresh_runs_Cons)
  define df1 where "df1 = df[i := (df ! i)\<lparr>runs := x i\<rparr>]"
  from index_of_pid_Some[OF i] have il: "i < length df" and ip: "pid (df ! i) = pid r" by simp_all
  from index_of_pid_Some[OF Cons.prems(2)] have jl: "j < length df" and jp: "pid (df ! j) = q"
    by simp_all
  have pids: "map pid df1 = map pid df"
    unfolding df1_def by (rule same_but_runs_pids) (rule same_but_runs_update[OF il])
  from index_of_pid_cong[OF pids] Cons.prems(2) have j1: "index_of_pid q df1 = Some j" by simp
  show ?case
  proof (cases "pid r = q")
    case True
    with i Cons.prems(2) have ij: "i = j" by simp
    from True Cons.prems(3) have none: "filter (\<lambda>r. pid r = q) rs = []" by simp
    then have "q \<notin> pid ` set rs" by (auto simp: filter_empty_conv)
    with jp pids jl have "pid (df1 ! j) \<notin> pid ` set rs"
      by (metis length_map nth_map)
    moreover have "j < length df1" using jl by (simp add: df1_def)
    ultimately have "runs (df' ! j) = runs (df1 ! j)"
      using refresh_runs_runs[OF r1[folded df1_def]] by simp
    also have "\<dots> = x j" using jl ij by (simp add: df1_def)
    finally show ?thesis using True by (simp add: x_def)
  next
    case False
    with ip jp have "i \<noteq> j" by auto
    then have same: "df1 ! j = df ! j" by (simp add: df1_def)
    from False Cons.prems(3) have le: "length (filter (\<lambda>r. pid r = q) rs) \<le> 1" by simp
    from Cons.IH[OF r1[folded df1_def] j1 le] same False show ?thesis
      by (simp split: list.splits)
  qed
qed

lemma sole_row_iff:
  "sole_row df i \<longleftrightarrow> (\<forall>k<length df. pid (df ! k) = pid (df ! i) \<longrightarrow> k = i)"
  by (auto simp: sole_row_def list_all_iff)

lemma sole_row_index:
  assumes "sole_row df i" "i < length df"
  shows "index_of_pid (pid (df ! i)) df = Some i"
proof -
  from assms(2) have "pid (df ! i) \<in> pid ` set df" by simp
  then obtain k where k: "index_of_pid (pid (df ! i)) df = Some k"
    using index_of_pid_None[of "pid (df ! i)" df] by (cases "index_of_pid (pid (df ! i)) df") auto
  from index_of_pid_Some[OF k] assms(1) have "k = i" by (simp add: sole_row_iff)
  with k show ?thesis by simp
qed

lemma sole_row_filter:
  assumes "sole_row df i" "i < length df"
  shows "filter (\<lambda>r. pid r = pid (df ! i)) df = [df ! i]"
proof -
  from assms(1) have u: "pid (df ! k) \<noteq> pid (df ! i)" if "k < length df" "k \<noteq> i" for k
    using that by (auto simp: sole_row_iff)
  have "pid r \<noteq> pid (df ! i)" if "r \<in> set (take i df)" for r
  proof -
    from that obtain k where k: "k < length (take i df)" "r = take i df ! k"
      by (auto simp: in_set_conv_nth)
    with assms(2) have "k < length df" "k \<noteq> i" "r = df ! k" by simp_all
    with u show ?thesis by simp
  qed
  then have a: "filter (\<lambda>r. pid r = pid (df ! i)) (take i df) = []"
    by (simp add: filter_empty_conv)
  have "pid r \<noteq> pid (df ! i)" if "r \<in> set (drop (Suc i) df)" for r
  proof -
    from that obtain k where k: "k < length (drop (Suc i) df)" "r = drop (Suc i) df ! k"
      by (auto simp: in_set_conv_nth)
    with assms(2) have "Suc i + k < length df" "Suc i + k \<noteq> i" "r = df ! (Suc i + k)" by simp_all
    with u show ?thesis by simp
  qed
  then have b: "filter (\<lambda>r. pid r = pid (df ! i)) (drop (Suc i) df) = []"
    by (simp add: filter_empty_conv)
  have "df = take i df @ df ! i # drop (Suc i) df" using assms(2) by (rule id_take_nth_drop)
  then have "filter (\<lambda>r. pid r = pid (df ! i)) df
               = filter (\<lambda>r. pid r = pid (df ! i)) (take i df @ df ! i # drop (Suc i) df)" by simp
  also have "\<dots> = [df ! i]" using a b by simp
  finally show ?thesis .
qed

text \<open>\<^verbatim>\<open>_getRunLogs\<close> on a file that has the table.\<close>

lemma getRunLogs_frame:
  "getRunLogs cfg fs (Some df) = Inr dfr \<Longrightarrow> list_all2 same_but_runs df dfr"
  by (simp add: getRunLogs_def refresh_runs_frame)

lemma getRunLogs_total:
  "str_names cfg df \<Longrightarrow> \<exists>dfr. getRunLogs cfg fs (Some df) = Inr dfr"
proof -
  assume s: "str_names cfg df"
  have "pid ` set (filter (\<lambda>r. status r = ''Running'') df) \<subseteq> pid ` set df" by auto
  from refresh_runs_total[OF this s[unfolded str_names_def]] show ?thesis
    by (simp add: getRunLogs_def)
qed

lemma getRunLogs_str_names:
  "getRunLogs cfg fs (Some df) = Inr dfr \<Longrightarrow> str_names cfg df"
  by (simp add: getRunLogs_def str_names_def refresh_runs_str)

lemma getRunLogs_runs:
  assumes "getRunLogs cfg fs (Some df) = Inr dfr" "j < length df"
    "\<not> (\<exists>r\<in>set df. status r = ''Running'' \<and> pid r = pid (df ! j))"
  shows "runs (dfr ! j) = runs (df ! j)"
proof -
  from assms(1) have d: "refresh_runs cfg fs (map user df) (map project df)
      (filter (\<lambda>r. status r = ''Running'') df) df = Inr dfr"
    by (simp add: getRunLogs_def)
  from assms(3) have "pid (df ! j) \<notin> pid ` set (filter (\<lambda>r. status r = ''Running'') df)" by auto
  from refresh_runs_runs[OF d assms(2) this] show ?thesis .
qed

lemma getRunLogs_sole:
  assumes "getRunLogs cfg fs (Some df) = Inr dfr" "j < length df" "sole_row df j"
  shows "runs (dfr ! j) =
           (if status (df ! j) = ''Running''
            then str_nat (getNumberOfRunsCompleted fs
                           (folder_output_of cfg (user (df ! j)) (project (df ! j))))
                 @ from_slash (runs (df ! j))
            else runs (df ! j))"
proof -
  from assms(1) have d: "refresh_runs cfg fs (map user df) (map project df)
      (filter (\<lambda>r. status r = ''Running'') df) df = Inr dfr"
    by (simp add: getRunLogs_def)
  have "filter (\<lambda>r. pid r = pid (df ! j)) (filter (\<lambda>r. status r = ''Running'') df)
          = filter (\<lambda>r. status r = ''Running'') (filter (\<lambda>r. pid r = pid (df ! j)) df)"
    by (simp add: conj_commute)
  with sole_row_filter[OF assms(3,2)]
  have f: "filter (\<lambda>r. pid r = pid (df ! j)) (filter (\<lambda>r. status r = ''Running'') df)
          = (if status (df ! j) = ''Running'' then [df ! j] else [])" by simp
  then have le: "length (filter (\<lambda>r. pid r = pid (df ! j)) (filter (\<lambda>r. status r = ''Running'') df)) \<le> 1"
    by simp
  from refresh_runs_first[OF d sole_row_index[OF assms(3,2)] le] f show ?thesis by simp
qed

lemma map_update_same:
  "i < length xs \<Longrightarrow> f r = f (xs ! i) \<Longrightarrow> map f (xs[i := r]) = map f xs"
  by (simp add: map_update list_update_same_conv)

text \<open>What \<^verbatim>\<open>to_csv\<close> writes back.\<close>

lemma to_csv_length [simp]: "length (to_csv cfg df) = length df"
  by (simp add: to_csv_def)

lemma to_csv_nth:
  "j < length df \<Longrightarrow>
     to_csv cfg df ! j = (df ! j)\<lparr>user := to_csv_cell cfg (map user df) (user (df ! j)),
                                   project := to_csv_cell cfg (map project df) (project (df ! j))\<rparr>"
  by (simp add: to_csv_def)

lemma to_csv_cell_str: "as_str cfg col t \<Longrightarrow> to_csv_cell cfg col t = t"
  by (simp add: to_csv_cell_def)

lemma to_csv_pids [simp]: "map pid (to_csv cfg df) = map pid df"
  by (simp add: to_csv_def)

lemma updated_row_fields [simp]:
  "pid (updated_row clk start nc nr st r) = pid r"
  "user (updated_row clk start nc nr st r) = user r"
  "project (updated_row clk start nc nr st r) = project r"
  "starttime (updated_row clk start nc nr st r) = starttime r"
  "status (updated_row clk start nc nr st r) = (if status r = ''Running'' then st else status r)"
  "runs (updated_row clk start nc nr st r) =
     (if truthy nc then str_opt nc @ ''/'' @ str_opt nr else runs r)"
  "endtime (updated_row clk start nc nr st r) = (case start of None \<Rightarrow> endtime r | Some t \<Rightarrow> stamp clk)"
  "runtime (updated_row clk start nc nr st r) =
     (case start of None \<Rightarrow> runtime r | Some t \<Rightarrow> str_int (seconds (now clk) t) @ ''s'')"
  by (simp_all add: updated_row_def Let_def split: option.splits)


lemma updateRunLog_no_row:
  assumes "p \<notin> pid ` set (rows_of rl)"
  shows "updateRunLog cfg fs clk rl p start nc nr st =
           Inl (MarxanServicesError
                 (''Unable to update run log for pid '' @ str_int p @ '' with status '' @ st))"
proof (cases rl)
  case None
  then show ?thesis by (simp add: updateRunLog_def getRunLogs_def)
next
  case (Some df)
  from assms Some have n: "index_of_pid p df = None" by (simp add: index_of_pid_None rows_of_def)
  show ?thesis
  proof (cases "getRunLogs cfg fs (Some df)")
    case (Inl e)
    with Some show ?thesis by (simp add: updateRunLog_def)
  next
    case (Inr dfr)
    from index_of_pid_cong[OF same_but_runs_pids[OF getRunLogs_frame[OF Inr]]] n
    have "index_of_pid p dfr = None" by simp
    with Some Inr show ?thesis by (simp add: updateRunLog_def)
  qed
qed

lemma updateRunLog_row:
  assumes "index_of_pid p df = Some i" "getRunLogs cfg fs (Some df) = Inr dfr"
  shows "updateRunLog cfg fs clk (Some df) p start nc nr st =
           Inr (Some (to_csv cfg (dfr[i := updated_row clk start nc nr st (dfr ! i)])),
                status (updated_row clk start nc nr st (dfr ! i)))"
proof -
  from getRunLogs_frame[OF assms(2)] have f: "list_all2 same_but_runs df dfr" .
  from index_of_pid_cong[OF same_but_runs_pids[OF f]] assms(1) have i: "index_of_pid p dfr = Some i"
    by simp
  from index_of_pid_Some[OF i] have il: "i < length dfr" by simp
  show ?thesis
    using il by (simp add: updateRunLog_def assms(2) i updated_row_def Let_def split: option.splits)
qed

lemma updateRunLog_Inr:
  assumes "updateRunLog cfg fs clk rl p start nc nr st = Inr (rl', ret)"
  obtains df dfr i where "rl = Some df" "index_of_pid p df = Some i" "i < length df"
    "getRunLogs cfg fs (Some df) = Inr dfr" "list_all2 same_but_runs df dfr"
    "rl' = Some (to_csv cfg (dfr[i := updated_row clk start nc nr st (dfr ! i)]))"
    "ret = status (updated_row clk start nc nr st (dfr ! i))"
proof -
  have "p \<in> pid ` set (rows_of rl)"
  proof (rule ccontr)
    assume "p \<notin> pid ` set (rows_of rl)"
    from updateRunLog_no_row[OF this] assms show False by simp
  qed
  then obtain df where df: "rl = Some df" "p \<in> pid ` set df"
    by (cases rl) (simp_all add: rows_of_def)
  then obtain i where i: "index_of_pid p df = Some i"
    using index_of_pid_None[of p df] by (cases "index_of_pid p df") auto
  obtain dfr where d: "getRunLogs cfg fs (Some df) = Inr dfr"
    using assms df(1) by (cases "getRunLogs cfg fs (Some df)") (simp_all add: updateRunLog_def)
  from updateRunLog_row[OF i d] assms df(1)
  have "rl' = Some (to_csv cfg (dfr[i := updated_row clk start nc nr st (dfr ! i)]))"
    "ret = status (updated_row clk start nc nr st (dfr ! i))" by simp_all
  with that df(1) i index_of_pid_Some[OF i] d getRunLogs_frame[OF d] show thesis by blast
qed


text \<open>The rows after an update, column by column.\<close>

lemma updateRunLog_rows:
  assumes "index_of_pid p df = Some i" "getRunLogs cfg fs (Some df) = Inr dfr" "j < length df"
  shows "updateRunLog cfg fs clk (Some df) p start nc nr st =
           Inr (Some (to_csv cfg (dfr[i := updated_row clk start nc nr st (dfr ! i)])),
                if status (df ! i) = ''Running'' then st else status (df ! i))"
    and "length (to_csv cfg (dfr[i := updated_row clk start nc nr st (dfr ! i)])) = length df"
    and "pid (to_csv cfg (dfr[i := updated_row clk start nc nr st (dfr ! i)]) ! j) = pid (df ! j)"
    and "starttime (to_csv cfg (dfr[i := updated_row clk start nc nr st (dfr ! i)]) ! j) = starttime (df ! j)"
    and "user (to_csv cfg (dfr[i := updated_row clk start nc nr st (dfr ! i)]) ! j)
           = to_csv_cell cfg (map user df) (user (df ! j))"
    and "project (to_csv cfg (dfr[i := updated_row clk start nc nr st (dfr ! i)]) ! j)
           = to_csv_cell cfg (map project df) (project (df ! j))"
    and "status (to_csv cfg (dfr[i := updated_row clk start nc nr st (dfr ! i)]) ! j)
           = (if j = i \<and> status (df ! j) = ''Running'' then st else status (df ! j))"
    and "endtime (to_csv cfg (dfr[i := updated_row clk start nc nr st (dfr ! i)]) ! j)
           = (if j = i then (case start of None \<Rightarrow> endtime (df ! j) | Some t \<Rightarrow> stamp clk)
              else endtime (df ! j))"
    and "runtime (to_csv cfg (dfr[i := updated_row clk start nc nr st (dfr ! i)]) ! j)
           = (if j = i then (case start of None \<Rightarrow> runtime (df ! j)
                                          | Some t \<Rightarrow> str_int (seconds (now clk) t) @ ''s'')
              else runtime (df ! j))"
    and "runs (to_csv cfg (dfr[i := updated_row clk start nc nr st (dfr ! i)]) ! j)
           = (if j = i \<and> truthy nc then str_opt nc @ ''/'' @ str_opt nr else runs (dfr ! j))"
proof -
  define df' where "df' = dfr[i := updated_row clk start nc nr st (dfr ! i)]"
  from getRunLogs_frame[OF assms(2)] have f: "list_all2 same_but_runs df dfr" .
  then have len: "length dfr = length df" by (simp add: list_all2_lengthD)
  from index_of_pid_Some[OF assms(1)] have il: "i < length df" by simp
  have rows: "same_but_runs (df ! k) (dfr ! k)" if "k < length df" for k
    using f that by (simp add: list_all2_conv_all_nth)
  have l': "length df' = length df" by (simp add: df'_def len)
  have us: "map user df' = map user df"
    using same_but_runs_users[OF f] il len by (simp add: df'_def map_update_same)
  have ps: "map project df' = map project df"
    using same_but_runs_projects[OF f] il len by (simp add: df'_def map_update_same)
  have nth: "df' ! j = (if j = i then updated_row clk start nc nr st (dfr ! i) else dfr ! j)"
    using assms(3) len by (simp add: df'_def nth_list_update)
  have csv: "to_csv cfg df' ! j = (df' ! j)\<lparr>user := to_csv_cell cfg (map user df) (user (df' ! j)),
                                   project := to_csv_cell cfg (map project df) (project (df' ! j))\<rparr>"
    using to_csv_nth[of j df' cfg] assms(3) l' us ps by simp
  from rows[OF il] have sti: "status (dfr ! i) = status (df ! i)" by (simp add: same_but_runs_def)
  show "updateRunLog cfg fs clk (Some df) p start nc nr st =
           Inr (Some (to_csv cfg (dfr[i := updated_row clk start nc nr st (dfr ! i)])),
                if status (df ! i) = ''Running'' then st else status (df ! i))"
    using updateRunLog_row[OF assms(1,2), of clk start nc nr st] sti by simp
  show "length (to_csv cfg (dfr[i := updated_row clk start nc nr st (dfr ! i)])) = length df"
    using l' by (simp add: df'_def)
  note r = rows[OF assms(3)] rows[OF il]
  show "pid (to_csv cfg (dfr[i := updated_row clk start nc nr st (dfr ! i)]) ! j) = pid (df ! j)"
    using csv nth r unfolding df'_def[symmetric] by (simp add: same_but_runs_def)
  show "starttime (to_csv cfg (dfr[i := updated_row clk start nc nr st (dfr ! i)]) ! j) = starttime (df ! j)"
    using csv nth r unfolding df'_def[symmetric] by (simp add: same_but_runs_def)
  show "user (to_csv cfg (dfr[i := updated_row clk start nc nr st (dfr ! i)]) ! j)
           = to_csv_cell cfg (map user df) (user (df ! j))"
    using csv nth r unfolding df'_def[symmetric] by (simp add: same_but_runs_def)
  show "project (to_csv cfg (dfr[i := updated_row clk start nc nr st (dfr ! i)]) ! j)
           = to_csv_cell cfg (map project df) (project (df ! j))"
    using csv nth r unfolding df'_def[symmetric] by (simp add: same_but_runs_def)
  show "status (to_csv cfg (dfr[i := updated_row clk start nc nr st (dfr ! i)]) ! j)
           = (if j = i \<and> status (df ! j) = ''Running'' then st else status (df ! j))"
    using csv nth r unfolding df'_def[symmetric] by (simp add: same_but_runs_def)
  show "endtime (to_csv cfg (dfr[i := updated_row clk start nc nr st (dfr ! i)]) ! j)
           = (if j = i then (case start of None \<Rightarrow> endtime (df ! j) | Some t \<Rightarrow> stamp clk)
              else endtime (df ! j))"
    using csv nth r unfolding df'_def[symmetric]
    by (auto simp: same_but_runs_def split: option.splits)
  show "runtime (to_csv cfg (dfr[i := updated_row clk start nc nr st (dfr ! i)]) ! j)
           = (if j = i then (case start of None \<Rightarrow> runtime (df ! j)
                                          | Some t \<Rightarrow> str_int (seconds (now clk) t) @ ''s'')
              else runtime (df ! j))"
    using csv nth r unfolding df'_def[symmetric]
    by (auto simp: same_but_runs_def split: option.splits)
  show "runs (to_csv cfg (dfr[i := updated_row clk start nc nr st (dfr ! i)]) ! j)
           = (if j = i \<and> truthy nc then str_opt nc @ ''/'' @ str_opt nr else runs (dfr ! j))"
    using csv nth unfolding df'_def[symmetric] by simp
qed

text \<open>A successful update changes the status of a running row only.\<close>

lemma updateRunLog_status:
  assumes "updateRunLog cfg fs clk (Some df) p start nc nr st = Inr (rl', ret)"
  shows "\<exists>df'. rl' = Some df' \<and> length df' = length df
           \<and> (\<forall>j<length df. status (df ! j) \<noteq> ''Running'' \<longrightarrow> status (df' ! j) = status (df ! j))"
proof -
  from assms obtain df0 dfr i where u: "Some df = Some df0" "index_of_pid p df0 = Some i"
    "getRunLogs cfg fs (Some df0) = Inr dfr"
    "rl' = Some (to_csv cfg (dfr[i := updated_row clk start nc nr st (dfr ! i)]))"
    by (rule updateRunLog_Inr)
  from u(1) have [simp]: "df0 = df" by simp
  from u(2,3) have i: "index_of_pid p df = Some i" and d: "getRunLogs cfg fs (Some df) = Inr dfr"
    by simp_all
  from index_of_pid_Some[OF i] have il: "i < length df" by simp
  from updateRunLog_rows(2)[OF i d il, of clk start nc nr st]
    updateRunLog_rows(7)[OF i d, of _ clk start nc nr st] u(4)
  show ?thesis by simp
qed

text \<open>
  C10, as the code has it. A successful update addresses the first row \<open>i\<close> with the pid
  and keeps the number of rows. In every row the pid and the start time are unchanged, and
  so are the user and the project where pandas reads them as text (as it does in every
  running row, or the update fails). End time and run time change only in row \<open>i\<close> and
  only when a start time is passed. The status changes only in row \<open>i\<close> and only from
  \<open>Running\<close>, to the status passed. The \<open>runs\<close> column is the exception to the claim:
  \<^verbatim>\<open>_updateRunLog\<close> starts from \<^verbatim>\<open>_getRunLogs\<close>, which recounts the output files of
  the running rows, and writes the whole table back. A row keeps its \<open>runs\<close> whenever no
  running row has its pid and it is not row \<open>i\<close> with a count passed; and in a row that is
  the only one with its pid, \<open>runs\<close> is the count passed over the number required in row
  \<open>i\<close>, otherwise, if the row is running, the number of \<^verbatim>\<open>output_r*\<close> files of its user
  and project followed by what the column held from its first slash on, and otherwise what
  it was.
\<close>

theorem update_frame:
  assumes "updateRunLog cfg fs clk (Some df) p start nc nr st = Inr (rl', ret)"
  shows "\<exists>df' i. rl' = Some df' \<and> length df' = length df \<and> index_of_pid p df = Some i \<and>
     (\<forall>j<length df.
        pid (df' ! j) = pid (df ! j) \<and> starttime (df' ! j) = starttime (df ! j) \<and>
        (as_str cfg (map user df) (user (df ! j)) \<longrightarrow> user (df' ! j) = user (df ! j)) \<and>
        (as_str cfg (map project df) (project (df ! j)) \<longrightarrow> project (df' ! j) = project (df ! j)) \<and>
        (status (df ! j) = ''Running'' \<longrightarrow>
           user (df' ! j) = user (df ! j) \<and> project (df' ! j) = project (df ! j)) \<and>
        (j \<noteq> i \<or> start = None \<longrightarrow>
           endtime (df' ! j) = endtime (df ! j) \<and> runtime (df' ! j) = runtime (df ! j)) \<and>
        status (df' ! j) = (if j = i \<and> status (df ! j) = ''Running'' then st else status (df ! j)) \<and>
        (runs (df' ! j) = runs (df ! j)
           \<or> (\<exists>r\<in>set df. status r = ''Running'' \<and> pid r = pid (df ! j))
           \<or> j = i \<and> truthy nc) \<and>
        (sole_row df j \<longrightarrow>
           runs (df' ! j) =
             (if j = i \<and> truthy nc then str_opt nc @ ''/'' @ str_opt nr
              else if status (df ! j) = ''Running''
              then str_nat (getNumberOfRunsCompleted fs
                             (folder_output_of cfg (user (df ! j)) (project (df ! j))))
                   @ from_slash (runs (df ! j))
              else runs (df ! j))))"
proof -
  from assms obtain df0 dfr i where u: "Some df = Some df0" "index_of_pid p df0 = Some i"
    "getRunLogs cfg fs (Some df0) = Inr dfr"
    "rl' = Some (to_csv cfg (dfr[i := updated_row clk start nc nr st (dfr ! i)]))"
    by (rule updateRunLog_Inr)
  from u(1) have [simp]: "df0 = df" by simp
  from u(2,3) have i: "index_of_pid p df = Some i" and d: "getRunLogs cfg fs (Some df) = Inr dfr"
    by simp_all
  define df' where "df' = to_csv cfg (dfr[i := updated_row clk start nc nr st (dfr ! i)])"
  note rows = updateRunLog_rows[OF i d, of _ clk start nc nr st, folded df'_def]
  from getRunLogs_str_names[OF d] have names: "str_names cfg df" .
  have run_names: "as_str cfg (map user df) (user (df ! j)) \<and> as_str cfg (map project df) (project (df ! j))"
    if "j < length df" "status (df ! j) = ''Running''" for j
  proof -
    from that have "df ! j \<in> set (filter (\<lambda>r. status r = ''Running'') df)" by simp
    with names show ?thesis unfolding str_names_def list_all_iff by blast
  qed
  have "pid (df' ! j) = pid (df ! j) \<and> starttime (df' ! j) = starttime (df ! j) \<and>
        (as_str cfg (map user df) (user (df ! j)) \<longrightarrow> user (df' ! j) = user (df ! j)) \<and>
        (as_str cfg (map project df) (project (df ! j)) \<longrightarrow> project (df' ! j) = project (df ! j)) \<and>
        (status (df ! j) = ''Running'' \<longrightarrow>
           user (df' ! j) = user (df ! j) \<and> project (df' ! j) = project (df ! j)) \<and>
        (j \<noteq> i \<or> start = None \<longrightarrow>
           endtime (df' ! j) = endtime (df ! j) \<and> runtime (df' ! j) = runtime (df ! j)) \<and>
        status (df' ! j) = (if j = i \<and> status (df ! j) = ''Running'' then st else status (df ! j)) \<and>
        (runs (df' ! j) = runs (df ! j)
           \<or> (\<exists>r\<in>set df. status r = ''Running'' \<and> pid r = pid (df ! j))
           \<or> j = i \<and> truthy nc) \<and>
        (sole_row df j \<longrightarrow>
           runs (df' ! j) =
             (if j = i \<and> truthy nc then str_opt nc @ ''/'' @ str_opt nr
              else if status (df ! j) = ''Running''
              then str_nat (getNumberOfRunsCompleted fs
                             (folder_output_of cfg (user (df ! j)) (project (df ! j))))
                   @ from_slash (runs (df ! j))
              else runs (df ! j)))" if j: "j < length df" for j
  proof (intro conjI impI)
    show "pid (df' ! j) = pid (df ! j)" by (rule rows(3)[OF j])
    show "starttime (df' ! j) = starttime (df ! j)" by (rule rows(4)[OF j])
    show "user (df' ! j) = user (df ! j)" if "as_str cfg (map user df) (user (df ! j))"
      using rows(5)[OF j] that by (simp add: to_csv_cell_str)
    show "project (df' ! j) = project (df ! j)" if "as_str cfg (map project df) (project (df ! j))"
      using rows(6)[OF j] that by (simp add: to_csv_cell_str)
    show "user (df' ! j) = user (df ! j)" if "status (df ! j) = ''Running''"
      using rows(5)[OF j] run_names[OF j that] by (simp add: to_csv_cell_str)
    show "project (df' ! j) = project (df ! j)" if "status (df ! j) = ''Running''"
      using rows(6)[OF j] run_names[OF j that] by (simp add: to_csv_cell_str)
    show "endtime (df' ! j) = endtime (df ! j)" if "j \<noteq> i \<or> start = None"
      using rows(8)[OF j] that by auto
    show "runtime (df' ! j) = runtime (df ! j)" if "j \<noteq> i \<or> start = None"
      using rows(9)[OF j] that by auto
    show "status (df' ! j) = (if j = i \<and> status (df ! j) = ''Running'' then st else status (df ! j))"
      by (rule rows(7)[OF j])
    show "runs (df' ! j) = runs (df ! j)
           \<or> (\<exists>r\<in>set df. status r = ''Running'' \<and> pid r = pid (df ! j))
           \<or> j = i \<and> truthy nc"
      using rows(10)[OF j] getRunLogs_runs[OF d j] by auto
    show "runs (df' ! j) =
             (if j = i \<and> truthy nc then str_opt nc @ ''/'' @ str_opt nr
              else if status (df ! j) = ''Running''
              then str_nat (getNumberOfRunsCompleted fs
                             (folder_output_of cfg (user (df ! j)) (project (df ! j))))
                   @ from_slash (runs (df ! j))
              else runs (df ! j))" if "sole_row df j"
      using rows(10)[OF j] getRunLogs_sole[OF d j that] by simp
  qed
  moreover have "length df' = length df"
    using rows(2)[of i] index_of_pid_Some[OF i] by simp
  ultimately show ?thesis using i u(4) unfolding df'_def by blast
qed

theorem update_frame_witness:
  "updateRunLog ex_cfg ex_fs ex_clk (Some [ex_row2, ex_row\<lparr>status := ''Completed''\<rparr>]) 7
       None None None ''Stopped''
     = Inr (Some [ex_row2\<lparr>runs := ''2/5''\<rparr>, ex_row\<lparr>status := ''Completed''\<rparr>], ''Completed'')
   \<and> index_of_pid 7 [ex_row2, ex_row\<lparr>status := ''Completed''\<rparr>] = Some 1
   \<and> sole_row [ex_row2, ex_row\<lparr>status := ''Completed''\<rparr>] 0
   \<and> str_nat (getNumberOfRunsCompleted ex_fs (folder_output_of ex_cfg ''admin'' ''p2''))
       @ from_slash ''0/5'' = ''2/5''"
proof -
  have run: "updateRunLog ex_cfg ex_fs ex_clk (Some [ex_row2, ex_row\<lparr>status := ''Completed''\<rparr>]) 7
       None None None ''Stopped''
     = Inr (Some [ex_row2\<lparr>runs := ''2/5''\<rparr>, ex_row\<lparr>status := ''Completed''\<rparr>], ''Completed'')"
    by code_simp
  have sole: "sole_row [ex_row2, ex_row\<lparr>status := ''Completed''\<rparr>] 0" by code_simp
  have one: "index_of_pid 7 [ex_row2, ex_row\<lparr>status := ''Completed''\<rparr>] = Some 1" by code_simp
  have r2: "status ex_row2 = ''Running''" "user ex_row2 = ''admin''" "project ex_row2 = ''p2''"
    "runs ex_row2 = ''0/5''" by (simp_all add: ex_row2_def)
  from update_frame [OF run] obtain df' i where
    d: "Some [ex_row2\<lparr>runs := ''2/5''\<rparr>, ex_row\<lparr>status := ''Completed''\<rparr>] = Some df'"
    and i: "index_of_pid 7 [ex_row2, ex_row\<lparr>status := ''Completed''\<rparr>] = Some i"
    and a: "\<forall>j<length [ex_row2, ex_row\<lparr>status := ''Completed''\<rparr>].
        sole_row [ex_row2, ex_row\<lparr>status := ''Completed''\<rparr>] j \<longrightarrow>
           runs (df' ! j) =
             (if j = i \<and> truthy None then str_opt None @ ''/'' @ str_opt None
              else if status ([ex_row2, ex_row\<lparr>status := ''Completed''\<rparr>] ! j) = ''Running''
              then str_nat (getNumberOfRunsCompleted ex_fs
                             (folder_output_of ex_cfg (user ([ex_row2, ex_row\<lparr>status := ''Completed''\<rparr>] ! j))
                                (project ([ex_row2, ex_row\<lparr>status := ''Completed''\<rparr>] ! j))))
                   @ from_slash (runs ([ex_row2, ex_row\<lparr>status := ''Completed''\<rparr>] ! j))
              else runs ([ex_row2, ex_row\<lparr>status := ''Completed''\<rparr>] ! j))"
    by blast
  from d have df': "df' = [ex_row2\<lparr>runs := ''2/5''\<rparr>, ex_row\<lparr>status := ''Completed''\<rparr>]" by simp
  from a[rule_format, of 0] sole
  have "str_nat (getNumberOfRunsCompleted ex_fs (folder_output_of ex_cfg ''admin'' ''p2''))
       @ from_slash ''0/5'' = ''2/5''"
    by (simp add: df' r2 truthy_def)
  with run one sole show ?thesis by simp
qed

text \<open>
  The claim itself fails: the stop command's update of pid 7 turns \<open>0/3\<close> into \<open>1/3\<close> in
  the row it addresses and \<open>0/5\<close> into \<open>2/5\<close> in another row.
\<close>

theorem update_rewrites_runs_counterexample:
  "updateRunLog ex_cfg ex_fs ex_clk (Some [ex_row, ex_row2]) 7 None None None ''Stopped'' =
     Inr (Some [ex_row\<lparr>runs := ''1/3'', status := ''Stopped''\<rparr>, ex_row2\<lparr>runs := ''2/5''\<rparr>],
          ''Stopped'')
   \<and> runs ex_row = ''0/3'' \<and> runs ex_row2 = ''0/5''"
  by code_simp

section \<open>Properties of sessions\<close>

lemma enriched_keep:
  "k \<noteq> ''elapsedtime'' \<Longrightarrow> k \<noteq> ''user'' \<Longrightarrow> k \<noteq> ''pid'' \<Longrightarrow>
     map_of (enriched clk s m) k = map_of m k"
  by (simp add: enriched_def Let_def update_conv' split: option.splits)

lemma stop_pc_fields [simp]:
  "ws_connection (stop_pc s) = ws_connection s"
  "clientSentFinalMsg (stop_pc s) = clientSentFinalMsg s"
  "written (stop_pc s) = written s"
  "warnings (stop_pc s) = warnings s"
  "uri (stop_pc s) = uri s"
  "req_user (stop_pc s) = req_user s"
  "req_project (stop_pc s) = req_project s"
  "startTime (stop_pc s) = startTime s"
  "self_pid (stop_pc s) = self_pid s"
  "marxanProcess (stop_pc s) = marxanProcess s"
  "numRunsRequired (stop_pc s) = numRunsRequired s"
  by (simp_all add: stop_pc_def)

lemma stop_pc_idem [simp]: "stop_pc (stop_pc s) = stop_pc s"
  by (simp add: stop_pc_def)

lemma stop_pc_stopped: "pc (stop_pc s) \<noteq> Some True"
  by (simp add: stop_pc_def)

lemma stop_pc_id: "pc s \<noteq> Some True \<Longrightarrow> stop_pc s = s"
  by (simp add: stop_pc_def)

lemma enriched_stop_pc [simp]: "enriched clk (stop_pc s) m = enriched clk s m"
  by (simp add: enriched_def)

text \<open>A clean \<^verbatim>\<open>close\<close> in the three states a session can be in.\<close>

lemma close_clean_open:
  "ws_connection s \<Longrightarrow>
     close clk s m True =
       (None, (stop_pc s)\<lparr>written := written s @ [enriched clk s (AList.update ''status'' ''Finished'' m)],
                          warnings := warnings s @ error_lines m,
                          clientSentFinalMsg := Some True, ws_connection := False\<rparr>)"
  by (simp add: close_def send_response_def Let_def error_lines_def update_conv' split: option.splits)

lemma close_clean_closed:
  "\<not> ws_connection s \<Longrightarrow> clientSentFinalMsg s = Some b \<Longrightarrow>
     close clk s m True =
       (None, (stop_pc s)\<lparr>warnings := warnings s
                             @ (if b then [] else [''The client closed the connection: '' @ uri s])
                             @ error_lines m,
                          clientSentFinalMsg := Some True, ws_connection := False\<rparr>)"
  by (simp add: close_def send_response_def close_not_clean_def Let_def error_lines_def update_conv'
        split: option.splits)

lemma close_clean_unset:
  "\<not> ws_connection s \<Longrightarrow> clientSentFinalMsg s = None \<Longrightarrow>
     close clk s m True = (Some (AttributeError ''clientSentFinalMsg''), stop_pc s)"
  by (simp add: close_def send_response_def close_not_clean_def Let_def)

lemma close_not_clean_set:
  "clientSentFinalMsg s = Some b \<Longrightarrow>
     close_not_clean s =
       (None, (if b then stop_pc s
               else (stop_pc s)\<lparr>warnings := warnings s @ [''The client closed the connection: '' @ uri s],
                                clientSentFinalMsg := Some True\<rparr>)\<lparr>ws_connection := False\<rparr>)"
  by (simp add: close_not_clean_def Let_def)

lemma close_clean_result:
  assumes "clientSentFinalMsg s = Some b"
  shows "\<exists>s'. close clk s m True = (None, s') \<and> \<not> ws_connection s' \<and> clientSentFinalMsg s' = Some True
            \<and> written s' = (if ws_connection s
                             then written s @ [enriched clk s (AList.update ''status'' ''Finished'' m)]
                             else written s)"
proof (cases "ws_connection s")
  case True
  then show ?thesis by (simp add: close_clean_open)
next
  case False
  with assms show ?thesis by (simp add: close_clean_closed)
qed

text \<open>\<^verbatim>\<open>finishOutput\<close> for a job that is logged, in terms of the update it makes.\<close>

lemma finishOutput_job:
  assumes "marxanProcess s = Some child" "req_user s = Some u" "req_project s = Some pr"
    "numRunsRequired s = Some n" "u \<noteq> ''_clumping''"
    "k = int (getNumberOfRunsCompleted (files srv) (folder_output_of cfg u pr))"
  shows "finishOutput cfg clk srv s =
     (case updateRunLog cfg (files srv) clk (runlog srv) child (Some (startTime s)) (Some k) (Some n)
             (if k = n then ''Completed'' else ''Killed'') of
        Inl e \<Rightarrow>
          (case e of
             MarxanServicesError m \<Rightarrow>
               (case close clk s [(''error'', m)] True of (r, s1) \<Rightarrow> (r, srv, s1))
           | _ \<Rightarrow> (Some e, srv, s))
      | Inr (rl, actual) \<Rightarrow>
          (case close clk s
                  (if k = n then [(''info'', ''Run completed''), (''project'', pr), (''user'', u)]
                   else if actual = ''Stopped''
                   then [(''error'', ''Run stopped by '' @ u), (''project'', pr), (''user'', u)]
                   else [(''error'', ''Run stopped by operating system''), (''project'', pr),
                         (''user'', u)])
                  True of
             (r, s1) \<Rightarrow> (r, srv\<lparr>runlog := rl\<rparr>, s1)))"
  using assms
  by (simp add: finishOutput_def Let_def split: sum.splits prod.splits exn.splits)

text \<open>
  C8. When no row of the run log has the pid (the log was cleared, or has no table at
  all), \<^verbatim>\<open>_updateRunLog\<close> raises the \<^verbatim>\<open>MarxanServicesError\<close> that names the pid and
  the status and writes nothing. The exit handler of a logged job whose session has
  finished \<^verbatim>\<open>open\<close> (the only sessions that register it) then raises nothing: it leaves
  the server as it is and closes its session with that text as the \<open>error\<close> of the
  \<open>Finished\<close> frame, which goes out if the channel is still there.
\<close>

theorem update_missing_row:
  assumes "p \<notin> pid ` set (rows_of rl)"
  shows "updateRunLog cfg fs clk rl p start nc nr st =
           Inl (MarxanServicesError
                 (''Unable to update run log for pid '' @ str_int p @ '' with status '' @ st))
     \<and> (\<forall>srv s u pr n b.
           runlog srv = rl \<and> marxanProcess s = Some p \<and> req_user s = Some u \<and> u \<noteq> ''_clumping''
           \<and> req_project s = Some pr \<and> numRunsRequired s = Some n \<and> clientSentFinalMsg s = Some b
           \<longrightarrow> (\<exists>s' msg.
                  finishOutput cfg clk srv s = (None, srv, s')
                  \<and> msg = ''Unable to update run log for pid '' @ str_int p @ '' with status ''
                          @ (if int (getNumberOfRunsCompleted (files srv) (folder_output_of cfg u pr)) = n
                             then ''Completed'' else ''Killed'')
                  \<and> \<not> ws_connection s' \<and> clientSentFinalMsg s' = Some True
                  \<and> written s' = (if ws_connection s
                                   then written s @ [enriched clk s [(''error'', msg), (''status'', ''Finished'')]]
                                   else written s)))"
proof (intro conjI allI impI)
  show "updateRunLog cfg fs clk rl p start nc nr st =
           Inl (MarxanServicesError
                 (''Unable to update run log for pid '' @ str_int p @ '' with status '' @ st))"
    by (rule updateRunLog_no_row[OF assms])
next
  fix srv :: server and s :: session and u pr :: string and n :: int and b :: bool
  assume a: "runlog srv = rl \<and> marxanProcess s = Some p \<and> req_user s = Some u \<and> u \<noteq> ''_clumping''
           \<and> req_project s = Some pr \<and> numRunsRequired s = Some n \<and> clientSentFinalMsg s = Some b"
  define k where "k = int (getNumberOfRunsCompleted (files srv) (folder_output_of cfg u pr))"
  define msg where "msg = ''Unable to update run log for pid '' @ str_int p @ '' with status ''
                          @ (if k = n then ''Completed'' else ''Killed'')"
  from a assms have nr: "p \<notin> pid ` set (rows_of (runlog srv))" by simp
  have fo: "finishOutput cfg clk srv s =
          (case close clk s [(''error'', msg)] True of (r, s1) \<Rightarrow> (r, srv, s1))"
    using a by (cases "k = n")
      (simp_all add: finishOutput_job[where k = k] k_def updateRunLog_no_row[OF nr]
         updateRunLog_no_row[OF assms] msg_def)
  from a have "clientSentFinalMsg s = Some b" by simp
  from close_clean_result[OF this, of clk "[(''error'', msg)]"] obtain s' where
    c: "close clk s [(''error'', msg)] True = (None, s')" "\<not> ws_connection s'"
       "clientSentFinalMsg s' = Some True"
       "written s' = (if ws_connection s
                      then written s @ [enriched clk s [(''error'', msg), (''status'', ''Finished'')]]
                      else written s)"
    by auto
  from fo c show "\<exists>s' msg.
                  finishOutput cfg clk srv s = (None, srv, s')
                  \<and> msg = ''Unable to update run log for pid '' @ str_int p @ '' with status ''
                          @ (if int (getNumberOfRunsCompleted (files srv) (folder_output_of cfg u pr)) = n
                             then ''Completed'' else ''Killed'')
                  \<and> \<not> ws_connection s' \<and> clientSentFinalMsg s' = Some True
                  \<and> written s' = (if ws_connection s
                                   then written s @ [enriched clk s [(''error'', msg), (''status'', ''Finished'')]]
                                   else written s)"
    unfolding msg_def k_def by simp
qed

theorem update_missing_row_witness:
  "7 \<notin> pid ` set (rows_of (Some []))
   \<and> updateRunLog ex_cfg ex_fs ex_clk (Some []) 7 (Some 0) (Some 1) (Some 3) ''Killed'' =
       Inl (MarxanServicesError ''Unable to update run log for pid 7 with status Killed'')
   \<and> fst (finishOutput ex_cfg ex_clk (ex_srv\<lparr>runlog := Some []\<rparr>) ex_job) = None
   \<and> written (snd (snd (finishOutput ex_cfg ex_clk (ex_srv\<lparr>runlog := Some []\<rparr>) ex_job))) =
       [[(''error'', ''Unable to update run log for pid 7 with status Killed''),
         (''status'', ''Finished''), (''elapsedtime'', ''100s''), (''user'', ''admin''),
         (''pid'', ''m7'')]]"
proof -
  have h: "7 \<notin> pid ` set (rows_of (Some []))" by (simp add: rows_of_def)
  have seven: "str_int 7 = ''7''" by code_simp
  from update_missing_row [OF h, of ex_cfg ex_fs ex_clk "Some 0" "Some 1" "Some 3" "''Killed''"]
  have u: "updateRunLog ex_cfg ex_fs ex_clk (Some []) 7 (Some 0) (Some 1) (Some 3) ''Killed'' =
       Inl (MarxanServicesError ''Unable to update run log for pid 7 with status Killed'')"
    by (simp add: seven)
  have f: "fst (finishOutput ex_cfg ex_clk (ex_srv\<lparr>runlog := Some []\<rparr>) ex_job) = None"
    by code_simp
  have w: "written (snd (snd (finishOutput ex_cfg ex_clk (ex_srv\<lparr>runlog := Some []\<rparr>) ex_job))) =
       [[(''error'', ''Unable to update run log for pid 7 with status Killed''),
         (''status'', ''Finished''), (''elapsedtime'', ''100s''), (''user'', ''admin''),
         (''pid'', ''m7'')]]"
    by code_simp
  from h u f w show ?thesis by simp
qed

text \<open>A finalized session ignores every later \<^verbatim>\<open>close\<close> and \<^verbatim>\<open>send_response\<close>.\<close>

lemma finalized_close:
  assumes "finalized s"
  shows "close clk s m clean =
           (None, s\<lparr>warnings := warnings s @ (if clean then error_lines m else [])\<rparr>)"
proof -
  from assms have f: "\<not> ws_connection s" "clientSentFinalMsg s = Some True" "pc s \<noteq> Some True"
    by (simp_all add: finalized_def)
  from f(3) have sp: "stop_pc s = s" by (rule stop_pc_id)
  show ?thesis
  proof (cases clean)
    case True
    with close_clean_closed[OF f(1) f(2), of clk m] sp f show ?thesis
      by (cases s) simp
  next
    case False
    with f sp show ?thesis
      by (cases s) (simp add: close_def close_not_clean_def Let_def)
  qed
qed

lemma finalized_send:
  assumes "finalized s"
  shows "send_response clk s m = (None, s)"
proof -
  from assms have f: "\<not> ws_connection s" "clientSentFinalMsg s = Some True" "pc s \<noteq> Some True"
    by (simp_all add: finalized_def)
  from f(3) have sp: "stop_pc s = s" by (rule stop_pc_id)
  from f sp show ?thesis
    by (cases s) (simp add: send_response_def close_not_clean_def Let_def)
qed

text \<open>
  C5. A clean \<^verbatim>\<open>close\<close> on a session whose channel is still there raises nothing,
  writes exactly one more frame, whose status is \<open>Finished\<close>, and leaves the session
  finalized. On a finalized session every later \<^verbatim>\<open>close\<close> (clean or not) and every
  \<^verbatim>\<open>send_response\<close> raises nothing, writes no frame and leaves the session as it is, so
  the \<open>Finished\<close> frame went out once; the only trace of a later clean \<^verbatim>\<open>close\<close> is the
  line that \<^verbatim>\<open>logging.warning\<close> gets when its message has an \<open>error\<close>.
\<close>

theorem close_idempotent:
  assumes "ws_connection s"
  shows "\<exists>s1. close clk s m True = (None, s1)
           \<and> written s1 = written s @ [enriched clk s (AList.update ''status'' ''Finished'' m)]
           \<and> map_of (enriched clk s (AList.update ''status'' ''Finished'' m)) ''status''
               = Some ''Finished''
           \<and> finalized s1
           \<and> (\<forall>s2. finalized s2 \<longrightarrow>
                 (\<forall>clk2 m2 clean.
                    close clk2 s2 m2 clean
                      = (None, s2\<lparr>warnings := warnings s2 @ (if clean then error_lines m2 else [])\<rparr>)
                    \<and> finalized (s2\<lparr>warnings := warnings s2 @ (if clean then error_lines m2 else [])\<rparr>)
                    \<and> send_response clk2 s2 m2 = (None, s2)))"
proof -
  define s1 where
    "s1 = (stop_pc s)\<lparr>written := written s @ [enriched clk s (AList.update ''status'' ''Finished'' m)],
                      warnings := warnings s @ error_lines m,
                      clientSentFinalMsg := Some True, ws_connection := False\<rparr>"
  from assms have c: "close clk s m True = (None, s1)" by (simp add: close_clean_open s1_def)
  have w: "written s1 = written s @ [enriched clk s (AList.update ''status'' ''Finished'' m)]"
    by (simp add: s1_def)
  have st: "map_of (enriched clk s (AList.update ''status'' ''Finished'' m)) ''status''
              = Some ''Finished''"
    by (simp add: enriched_keep update_conv')
  have fin: "finalized s1" using stop_pc_stopped[of s] by (simp add: s1_def finalized_def)
  have later: "close clk2 s2 m2 clean
                 = (None, s2\<lparr>warnings := warnings s2 @ (if clean then error_lines m2 else [])\<rparr>)
               \<and> finalized (s2\<lparr>warnings := warnings s2 @ (if clean then error_lines m2 else [])\<rparr>)
               \<and> send_response clk2 s2 m2 = (None, s2)"
    if "finalized s2" for s2 clk2 m2 clean
    using that finalized_close[OF that] finalized_send[OF that] by (simp add: finalized_def)
  from c w st fin later show ?thesis by blast
qed

theorem close_idempotent_witness:
  "ws_connection ex_job
   \<and> written (snd (close ex_clk ex_job [(''info'', ''Run completed'')] True)) =
       [[(''info'', ''Run completed''), (''status'', ''Finished''), (''elapsedtime'', ''100s''),
         (''user'', ''admin''), (''pid'', ''m7'')]]
   \<and> written (snd (close ex_clk (snd (close ex_clk ex_job [(''info'', ''Run completed'')] True))
                      [(''info'', ''Run completed'')] True)) =
       [[(''info'', ''Run completed''), (''status'', ''Finished''), (''elapsedtime'', ''100s''),
         (''user'', ''admin''), (''pid'', ''m7'')]]"
proof -
  have ws: "ws_connection ex_job" by code_simp
  have e: "written ex_job @ [enriched ex_clk ex_job (AList.update ''status'' ''Finished''
                                                     [(''info'', ''Run completed'')])] =
       [[(''info'', ''Run completed''), (''status'', ''Finished''), (''elapsedtime'', ''100s''),
         (''user'', ''admin''), (''pid'', ''m7'')]]" by code_simp
  from close_idempotent [OF ws, of ex_clk "[(''info'', ''Run completed'')]"] obtain s1 where
    c: "close ex_clk ex_job [(''info'', ''Run completed'')] True = (None, s1)"
    and w: "written s1 = written ex_job @ [enriched ex_clk ex_job (AList.update ''status'' ''Finished''
                                                                    [(''info'', ''Run completed'')])]"
    and f: "finalized s1"
    and l: "\<forall>s2. finalized s2 \<longrightarrow>
                 (\<forall>clk2 m2 clean.
                    close clk2 s2 m2 clean
                      = (None, s2\<lparr>warnings := warnings s2 @ (if clean then error_lines m2 else [])\<rparr>)
                    \<and> finalized (s2\<lparr>warnings := warnings s2 @ (if clean then error_lines m2 else [])\<rparr>)
                    \<and> send_response clk2 s2 m2 = (None, s2))"
    by blast
  from l f have "close ex_clk s1 [(''info'', ''Run completed'')] True
        = (None, s1\<lparr>warnings := warnings s1 @ error_lines [(''info'', ''Run completed'')]\<rparr>)"
    by simp
  with c w e ws show ?thesis by simp
qed

text \<open>
  Once \<^verbatim>\<open>open\<close> has set \<^verbatim>\<open>clientSentFinalMsg\<close>, sending on a closed channel raises
  nothing and writes nothing.
\<close>

lemma send_response_closed_after_open:
  assumes "\<not> ws_connection s" "clientSentFinalMsg s = Some b"
  shows "fst (send_response clk s m) = None \<and> written (snd (send_response clk s m)) = written s"
  using assms by (simp add: send_response_def close_not_clean_set)

text \<open>
  C9. Sending on a session whose channel is closed should raise nothing and deliver
  nothing. The code does so only after \<^verbatim>\<open>open\<close> has run to its end, since the attribute
  \<^verbatim>\<open>clientSentFinalMsg\<close> is assigned by its last statement. On a session whose client
  has gone while \<^verbatim>\<open>open\<close> is still under way, \<^verbatim>\<open>send_response\<close> reaches
  \<^verbatim>\<open>close(clean=False)\<close>, which reads the missing attribute: the caller gets an
  \<^verbatim>\<open>AttributeError\<close>. The same happens to the first message of \<^verbatim>\<open>open\<close> itself.
\<close>

theorem send_response_raises_before_open_ends:
  "send_response ex_clk (ex_session\<lparr>ws_connection := False\<rparr>)
       [(''status'', ''Preprocessing''), (''info'', ''Preprocessing..'')]
     = (Some (AttributeError ''clientSentFinalMsg''), ex_session\<lparr>ws_connection := False\<rparr>)
   \<and> fst (MarxanWebSocketHandler_open ex_clk ex_env (ex_session\<lparr>ws_connection := False\<rparr>)
            [(''info'', ''Running Marxan..'')])
     = Some (AttributeError ''clientSentFinalMsg'')"
  by code_simp

section \<open>Properties of the job supervisor\<close>

text \<open>The update of the stop command on a running row.\<close>

lemma stop_sets_stopped:
  assumes "index_of_pid child df0 = Some i" "status (df0 ! i) = ''Running''" "str_names cfg df0"
  shows "\<exists>df1. updateRunLog cfg fs clk (Some df0) child None None None ''Stopped'' = Inr (Some df1, ''Stopped'')
           \<and> index_of_pid child df1 = Some i \<and> status (df1 ! i) = ''Stopped''"
proof -
  from getRunLogs_total[OF assms(3)] obtain dfr where d: "getRunLogs cfg fs (Some df0) = Inr dfr"
    by blast
  from index_of_pid_Some[OF assms(1)] have il: "i < length df0" by simp
  define df1 where "df1 = to_csv cfg (dfr[i := updated_row clk None None None ''Stopped'' (dfr ! i)])"
  note rows = updateRunLog_rows[OF assms(1) d, of _ clk None None None "''Stopped''", folded df1_def]
  have u: "updateRunLog cfg fs clk (Some df0) child None None None ''Stopped'' = Inr (Some df1, ''Stopped'')"
    using rows(1)[OF il] assms(2) by simp
  have "map pid df1 = map pid df0"
    using rows(2)[OF il] rows(3) by (simp add: list_eq_iff_nth_eq)
  from index_of_pid_cong[OF this] assms(1) have i1: "index_of_pid child df1 = Some i" by simp
  have "status (df1 ! i) = ''Stopped''" using rows(7)[OF il] assms(2) by simp
  with u i1 show ?thesis by blast
qed

text \<open>
  The exit handler when the row of its job is already \<open>Stopped\<close> and the log can be
  refreshed.
\<close>

lemma exit_after_stop:
  assumes "runlog srv = Some df1" "index_of_pid child df1 = Some i" "status (df1 ! i) = ''Stopped''"
    "str_names cfg df1"
    "marxanProcess s = Some child" "req_user s = Some u" "u \<noteq> ''_clumping''"
    "req_project s = Some pr" "numRunsRequired s = Some n"
    "k = int (getNumberOfRunsCompleted (files srv) (folder_output_of cfg u pr))" "k \<noteq> n"
  shows "\<exists>df2. updateRunLog cfg (files srv) clk (Some df1) child (Some (startTime s)) (Some k) (Some n) ''Killed''
                 = Inr (Some df2, ''Stopped'')
           \<and> status (df2 ! i) = ''Stopped''
           \<and> finishOutput cfg clk srv s =
               (case close clk s [(''error'', ''Run stopped by '' @ u), (''project'', pr), (''user'', u)] True of
                  (r, s1) \<Rightarrow> (r, srv\<lparr>runlog := Some df2\<rparr>, s1))"
proof -
  from getRunLogs_total[OF assms(4)] obtain dfr where d: "getRunLogs cfg (files srv) (Some df1) = Inr dfr"
    by blast
  from index_of_pid_Some[OF assms(2)] have il: "i < length df1" by simp
  define df2 where
    "df2 = to_csv cfg (dfr[i := updated_row clk (Some (startTime s)) (Some k) (Some n) ''Killed'' (dfr ! i)])"
  note rows = updateRunLog_rows[OF assms(2) d, of _ clk "Some (startTime s)" "Some k" "Some n" "''Killed''",
      folded df2_def]
  have u: "updateRunLog cfg (files srv) clk (Some df1) child (Some (startTime s)) (Some k) (Some n) ''Killed''
             = Inr (Some df2, ''Stopped'')"
    using rows(1)[OF il] assms(3) by simp
  have s2: "status (df2 ! i) = ''Stopped''" using rows(7)[OF il] assms(3) by simp
  have "finishOutput cfg clk srv s =
               (case close clk s [(''error'', ''Run stopped by '' @ u), (''project'', pr), (''user'', u)] True of
                  (r, s1) \<Rightarrow> (r, srv\<lparr>runlog := Some df2\<rparr>, s1))"
    using finishOutput_job[OF assms(5,6,8,9,7,10), of clk] assms(1,11) u by simp
  with u s2 show ?thesis by blast
qed

text \<open>
  C2. A status that is not \<open>Running\<close> should survive every later update, and the exit
  handler of a job that an explicit stop has set to \<open>Stopped\<close> should get \<open>Stopped\<close> back
  from its update with \<open>Killed\<close> and close the session with \<open>Run stopped by\<close> and the user.
  The code keeps every such status (lemma \<open>updateRunLog_status\<close>) and closes the session
  in that way whenever the update is made (lemma \<open>exit_after_stop\<close>). But the update is
  not made when any running row has a user or project that pandas does not read as text.
  Here the job 7 of \<open>p1\<close> is stopped; before its exit handler runs, a job of the project
  \<open>NA\<close> is started and logged; the exit handler of job 7 then fails to refresh the log,
  because the project of the new row is read as a missing value, and the session of the
  stopped job is closed with the error of the update. Without that start it is closed with
  \<open>Run stopped by admin\<close>.
\<close>

theorem stopped_job_closed_with_update_error:
  "(case stopProcess_get ex_cfg ex_clk ex_db ex_srv (Some ''m7'') of
      (r1, srv1) \<Rightarrow>
        (case runMarxan_open ex_cfg ex_clk ex_env srv1 (ex_session\<lparr>req_project := Some ''NA''\<rparr>) of
           (r2, srv2, s2) \<Rightarrow>
             (case finishOutput ex_cfg ex_clk srv2 ex_job of
                (r3, srv3, s3) \<Rightarrow>
                  (r1, map (\<lambda>r. (pid r, project r, status r)) (rows_of (runlog srv1)),
                   r2, map (\<lambda>r. (pid r, project r, status r)) (rows_of (runlog srv2)),
                   r3, map (\<lambda>r. (pid r, project r, status r)) (rows_of (runlog srv3)),
                   map (\<lambda>m. map_of m ''error'') (written s3)))))
   = (Inr (Info (''pid '' @ [CHR 0x27] @ ''7'' @ [CHR 0x27] @ '' terminated'')),
      [(7, ''p1'', ''Stopped'')],
      None, [(7, ''p1'', ''Stopped''), (9, ''NA'', ''Running'')],
      None, [(7, ''p1'', ''Stopped''), (9, ''NA'', ''Running'')],
      [Some ''Unable to update run log for pid 7 with status Killed''])
   \<and> cell ex_cfg [''p1'', ''NA''] ''NA'' = None
   \<and> (case stopProcess_get ex_cfg ex_clk ex_db ex_srv (Some ''m7'') of
         (r1, srv1) \<Rightarrow>
           (case finishOutput ex_cfg ex_clk srv1 ex_job of
              (r3, srv3, s3) \<Rightarrow> (r3, map (\<lambda>m. map_of m ''error'') (written s3))))
       = (None, [Some ''Run stopped by admin''])"
  by code_simp

text \<open>The exit handler when all runs required are on disk.\<close>

lemma str_int_0: "str_int 0 = ''0''"
  by (simp add: str_int_def str_nat.simps)

lemma str_nat_0: "str_nat 0 = ''0''"
  by (simp add: str_nat.simps)

text \<open>The row that \<^verbatim>\<open>logRun\<close> writes for a job that requires no runs.\<close>

lemma logRun_no_runs: "runs (last (rows_of (logRun clk (Some df) p u pr 0))) = ''0/0''"
  by (simp add: logRun_def rows_of_def str_int_0)

lemma exit_completed:
  assumes "runlog srv = Some df" "index_of_pid child df = Some i" "sole_row df i"
    "user (df ! i) = u" "project (df ! i) = pr" "str_names cfg df"
    "marxanProcess s = Some child" "req_user s = Some u" "u \<noteq> ''_clumping''"
    "req_project s = Some pr" "numRunsRequired s = Some n"
    "int (getNumberOfRunsCompleted (files srv) (folder_output_of cfg u pr)) = n"
  shows "\<exists>df'. finishOutput cfg clk srv s =
                 (case close clk s [(''info'', ''Run completed''), (''project'', pr), (''user'', u)] True of
                    (r, s1) \<Rightarrow> (r, srv\<lparr>runlog := Some df'\<rparr>, s1))
           \<and> length df' = length df
           \<and> status (df' ! i) = (if status (df ! i) = ''Running'' then ''Completed'' else status (df ! i))
           \<and> runs (df' ! i) =
               (if n \<noteq> 0 then str_int n @ ''/'' @ str_int n
                else if status (df ! i) = ''Running'' then ''0'' @ from_slash (runs (df ! i))
                else runs (df ! i))
           \<and> ((n = 0 \<longrightarrow> runs (df ! i) = ''0/0'') \<longrightarrow> runs (df' ! i) = str_int n @ ''/'' @ str_int n)"
proof -
  from getRunLogs_total[OF assms(6)] obtain dfr where d: "getRunLogs cfg (files srv) (Some df) = Inr dfr"
    by blast
  from index_of_pid_Some[OF assms(2)] have il: "i < length df" by simp
  define df' where
    "df' = to_csv cfg (dfr[i := updated_row clk (Some (startTime s)) (Some n) (Some n) ''Completed'' (dfr ! i)])"
  note rows = updateRunLog_rows[OF assms(2) d, of _ clk "Some (startTime s)" "Some n" "Some n" "''Completed''",
      folded df'_def]
  have fo: "finishOutput cfg clk srv s =
                 (case close clk s [(''info'', ''Run completed''), (''project'', pr), (''user'', u)] True of
                    (r, s1) \<Rightarrow> (r, srv\<lparr>runlog := Some df'\<rparr>, s1))"
    using finishOutput_job[OF assms(7,8,10,11,9) assms(12)[symmetric], of clk] assms(1) rows(1)[OF il]
    by simp
  have l: "length df' = length df" by (rule rows(2)[OF il])
  have s': "status (df' ! i) = (if status (df ! i) = ''Running'' then ''Completed'' else status (df ! i))"
    using rows(7)[OF il] by simp
  have e': "runs (df' ! i) =
               (if n \<noteq> 0 then str_int n @ ''/'' @ str_int n
                else if status (df ! i) = ''Running'' then ''0'' @ from_slash (runs (df ! i))
                else runs (df ! i))"
  proof (cases "n = 0")
    case False
    with rows(10)[OF il] show ?thesis by (simp add: truthy_def str_opt_def)
  next
    case True
    from True assms(12) have c: "getNumberOfRunsCompleted (files srv) (folder_output_of cfg u pr) = 0"
      by simp
    from True rows(10)[OF il] have "runs (df' ! i) = runs (dfr ! i)" by (simp add: truthy_def)
    also from getRunLogs_sole[OF d il assms(3)]
    have "\<dots> = (if status (df ! i) = ''Running'' then ''0'' @ from_slash (runs (df ! i))
                  else runs (df ! i))"
      using c assms(4,5) by (simp add: str_nat_0)
    finally show ?thesis using True by simp
  qed
  have r': "runs (df' ! i) = str_int n @ ''/'' @ str_int n" if h: "n = 0 \<longrightarrow> runs (df ! i) = ''0/0''"
  proof (cases "n = 0")
    case False
    with e' show ?thesis by simp
  next
    case True
    with h have z: "runs (df ! i) = ''0/0''" by simp
    from e' True z show ?thesis by (simp add: str_int_0 from_slash_def)
  qed
  from fo l s' e' r' show ?thesis by blast
qed

text \<open>
  C6, as the code has it. Take a logged job whose output folder holds as many
  \<^verbatim>\<open>output_r*\<close> files as runs required, and a run log that can be refreshed and has one
  row with the pid of the job, the row of its user and project. The exit handler closes
  the session cleanly with the information \<open>Run completed\<close>; the row gets the status
  \<open>Completed\<close> if it was still \<open>Running\<close> and keeps its status otherwise (a row that an
  explicit stop has set to \<open>Stopped\<close> stays \<open>Stopped\<close>); its \<open>runs\<close> column is the number
  required, a slash and that number again. For a positive number it is assigned; for no
  runs required nothing is assigned and the column is what the refresh leaves, \<open>0\<close>
  and what a running row held from its first slash on, or what a row that is not running
  held: \<open>0/0\<close> again when the row held \<open>0/0\<close>, which is what \<^verbatim>\<open>logRun\<close> wrote.
\<close>

theorem exit_with_all_runs:
  assumes "runlog srv = Some df" "index_of_pid child df = Some i" "sole_row df i"
    "user (df ! i) = u" "project (df ! i) = pr" "str_names cfg df"
    "marxanProcess s = Some child" "req_user s = Some u" "u \<noteq> ''_clumping''"
    "req_project s = Some pr" "numRunsRequired s = Some n"
    "int (getNumberOfRunsCompleted (files srv) (folder_output_of cfg u pr)) = n"
  shows "\<exists>df'. finishOutput cfg clk srv s =
                 (case close clk s [(''info'', ''Run completed''), (''project'', pr), (''user'', u)] True of
                    (r, s1) \<Rightarrow> (r, srv\<lparr>runlog := Some df'\<rparr>, s1))
           \<and> length df' = length df
           \<and> status (df' ! i) = (if status (df ! i) = ''Running'' then ''Completed'' else status (df ! i))
           \<and> runs (df' ! i) =
               (if n \<noteq> 0 then str_int n @ ''/'' @ str_int n
                else if status (df ! i) = ''Running'' then ''0'' @ from_slash (runs (df ! i))
                else runs (df ! i))
           \<and> ((n = 0 \<longrightarrow> runs (df ! i) = ''0/0'') \<longrightarrow> runs (df' ! i) = str_int n @ ''/'' @ str_int n)
           \<and> (\<forall>b. clientSentFinalMsg s = Some b \<longrightarrow>
                 (\<exists>s'. finishOutput cfg clk srv s = (None, srv\<lparr>runlog := Some df'\<rparr>, s')
                    \<and> \<not> ws_connection s' \<and> clientSentFinalMsg s' = Some True
                    \<and> written s' =
                        (if ws_connection s
                         then written s @ [enriched clk s [(''info'', ''Run completed''), (''project'', pr),
                                                           (''user'', u), (''status'', ''Finished'')]]
                         else written s)))"
proof -
  from exit_completed[OF assms, of clk] obtain df' where
    fo: "finishOutput cfg clk srv s =
                 (case close clk s [(''info'', ''Run completed''), (''project'', pr), (''user'', u)] True of
                    (r, s1) \<Rightarrow> (r, srv\<lparr>runlog := Some df'\<rparr>, s1))"
    and rest: "length df' = length df"
      "status (df' ! i) = (if status (df ! i) = ''Running'' then ''Completed'' else status (df ! i))"
      "runs (df' ! i) =
               (if n \<noteq> 0 then str_int n @ ''/'' @ str_int n
                else if status (df ! i) = ''Running'' then ''0'' @ from_slash (runs (df ! i))
                else runs (df ! i))"
      "(n = 0 \<longrightarrow> runs (df ! i) = ''0/0'') \<longrightarrow> runs (df' ! i) = str_int n @ ''/'' @ str_int n"
    by blast
  have "\<exists>s'. finishOutput cfg clk srv s = (None, srv\<lparr>runlog := Some df'\<rparr>, s')
                    \<and> \<not> ws_connection s' \<and> clientSentFinalMsg s' = Some True
                    \<and> written s' =
                        (if ws_connection s
                         then written s @ [enriched clk s [(''info'', ''Run completed''), (''project'', pr),
                                                           (''user'', u), (''status'', ''Finished'')]]
                         else written s)"
    if "clientSentFinalMsg s = Some b" for b
    using close_clean_result[OF that, of clk "[(''info'', ''Run completed''), (''project'', pr), (''user'', u)]"]
      fo by auto
  with fo rest show ?thesis by blast
qed

theorem exit_with_all_runs_witness:
  "runlog ex_srv2 = Some [ex_row2\<lparr>runs := ''0/2''\<rparr>]
   \<and> sole_row [ex_row2\<lparr>runs := ''0/2''\<rparr>] 0 \<and> str_names ex_cfg [ex_row2\<lparr>runs := ''0/2''\<rparr>]
   \<and> int (getNumberOfRunsCompleted (files ex_srv2) (folder_output_of ex_cfg ''admin'' ''p2'')) = 2
   \<and> (case finishOutput ex_cfg ex_clk ex_srv2 ex_job2 of (r, srv, s) \<Rightarrow> (r, runlog srv, written s))
       = (None,
          Some [ex_row2\<lparr>endtime := ''04/11/26 10:00:00'', runtime := ''100s'', runs := ''2/2'',
                   status := ''Completed''\<rparr>],
          [[(''info'', ''Run completed''), (''project'', ''p2''), (''user'', ''admin''),
            (''status'', ''Finished''), (''elapsedtime'', ''100s''), (''pid'', ''m8'')]])
   \<and> (\<exists>df'. finishOutput ex_cfg ex_clk ex_srv2 ex_job2 =
                 (case close ex_clk ex_job2
                         [(''info'', ''Run completed''), (''project'', ''p2''), (''user'', ''admin'')] True of
                    (r, s1) \<Rightarrow> (r, ex_srv2\<lparr>runlog := Some df'\<rparr>, s1)))"
proof -
  have a1: "runlog ex_srv2 = Some [ex_row2\<lparr>runs := ''0/2''\<rparr>]" by (simp add: ex_srv2_def)
  have a2: "index_of_pid 8 [ex_row2\<lparr>runs := ''0/2''\<rparr>] = Some 0" by code_simp
  have a3: "marxanProcess ex_job2 = Some 8" by code_simp
  have a4: "req_user ex_job2 = Some ''admin''" by code_simp
  have a5: "''admin'' \<noteq> ''_clumping''" by simp
  have a6: "req_project ex_job2 = Some ''p2''" by code_simp
  have a7: "numRunsRequired ex_job2 = Some 2" by code_simp
  have a8: "int (getNumberOfRunsCompleted (files ex_srv2) (folder_output_of ex_cfg ''admin'' ''p2'')) = 2"
    by code_simp
  have b1: "sole_row [ex_row2\<lparr>runs := ''0/2''\<rparr>] 0" by code_simp
  have b2: "user ([ex_row2\<lparr>runs := ''0/2''\<rparr>] ! 0) = ''admin''" by code_simp
  have b3: "project ([ex_row2\<lparr>runs := ''0/2''\<rparr>] ! 0) = ''p2''" by code_simp
  have b4: "str_names ex_cfg [ex_row2\<lparr>runs := ''0/2''\<rparr>]" by code_simp
  from exit_with_all_runs [OF a1 a2 b1 b2 b3 b4 a3 a4 a5 a6 a7 a8, of ex_clk]
  obtain df' where d: "finishOutput ex_cfg ex_clk ex_srv2 ex_job2 =
                 (case close ex_clk ex_job2
                         [(''info'', ''Run completed''), (''project'', ''p2''), (''user'', ''admin'')] True of
                    (r, s1) \<Rightarrow> (r, ex_srv2\<lparr>runlog := Some df'\<rparr>, s1))"
    by (elim exE conjE)
  have w: "\<exists>df'. finishOutput ex_cfg ex_clk ex_srv2 ex_job2 =
                 (case close ex_clk ex_job2
                         [(''info'', ''Run completed''), (''project'', ''p2''), (''user'', ''admin'')] True of
                    (r, s1) \<Rightarrow> (r, ex_srv2\<lparr>runlog := Some df'\<rparr>, s1))"
    by (rule exI[of _ df']) (rule d)
  have e: "(case finishOutput ex_cfg ex_clk ex_srv2 ex_job2 of (r, srv, s) \<Rightarrow> (r, runlog srv, written s))
       = (None,
          Some [ex_row2\<lparr>endtime := ''04/11/26 10:00:00'', runtime := ''100s'', runs := ''2/2'',
                   status := ''Completed''\<rparr>],
          [[(''info'', ''Run completed''), (''project'', ''p2''), (''user'', ''admin''),
            (''status'', ''Finished''), (''elapsedtime'', ''100s''), (''pid'', ''m8'')]])"
    by code_simp
  show ?thesis by (rule conjI[OF a1 conjI[OF b1 conjI[OF b4 conjI[OF a8 conjI[OF e w]]]]])
qed

text \<open>
  The claim itself fails: with both runs of \<open>p2\<close> on disk and the row already \<open>Stopped\<close>,
  the exit handler reports \<open>Run completed\<close> and the row stays \<open>Stopped\<close>.
\<close>

theorem completed_keeps_stopped_counterexample:
  "int (getNumberOfRunsCompleted ex_fs (folder_output_of ex_cfg ''admin'' ''p2'')) = 2
   \<and> numRunsRequired ex_job2 = Some 2
   \<and> (case finishOutput ex_cfg ex_clk
              (ex_srv\<lparr>runlog := Some [ex_row2\<lparr>runs := ''2/2'', status := ''Stopped''\<rparr>]\<rparr>) ex_job2 of
         (r, srv, s) \<Rightarrow> (r, map status (rows_of (runlog srv)), map (\<lambda>m. map_of m ''info'') (written s)))
       = (None, [''Stopped''], [Some ''Run completed''])"
  by code_simp





text \<open>The session methods keep the request and the child of a session.\<close>

lemma same_request_refl [simp]: "same_request s s"
  by (simp add: same_request_def)

lemma close_not_clean_request: "same_request s (snd (close_not_clean s))"
  by (simp add: close_not_clean_def Let_def same_request_def split: option.splits)

lemma send_response_request: "same_request s (snd (send_response clk s m))"
  using close_not_clean_request[of s] by (simp add: send_response_def same_request_def)

lemma close_request: "same_request s (snd (close clk s m clean))"
proof (cases clean)
  case True
  have "same_request (stop_pc s) (snd (send_response clk (stop_pc s) (AList.update ''status'' ''Finished'' m)))"
    by (rule send_response_request)
  then show ?thesis using True
    by (auto simp: close_def Let_def same_request_def split: prod.splits option.splits)
next
  case False
  then show ?thesis using close_not_clean_request[of s] by (simp add: close_def)
qed

lemma send_response_requestD:
  "send_response clk s m = (r, s') \<Longrightarrow>
     req_user s' = req_user s \<and> req_project s' = req_project s \<and> marxanProcess s' = marxanProcess s"
  using send_response_request[of s clk m] by (simp add: same_request_def)

lemma close_requestD:
  "close clk s m clean = (r, s') \<Longrightarrow>
     req_user s' = req_user s \<and> req_project s' = req_project s \<and> marxanProcess s' = marxanProcess s"
  using close_request[of s clk m clean] by (simp add: same_request_def)

lemma open_request:
  "same_request s (snd (MarxanWebSocketHandler_open clk env s m))"
  by (auto simp: MarxanWebSocketHandler_open_def same_request_def
        split: prod.splits option.splits
        dest!: send_response_requestD close_requestD)

lemma open_flag:
  "MarxanWebSocketHandler_open clk env s m = (None, s1) \<Longrightarrow> clientSentFinalMsg s1 = Some False"
  by (auto simp: MarxanWebSocketHandler_open_def split: prod.splits option.splits if_splits)

text \<open>
  Only a session that has got through \<^verbatim>\<open>MarxanWebSocketHandler.open\<close> is given a child
  process, so the exit handler of a child always finds \<^verbatim>\<open>clientSentFinalMsg\<close> set.
\<close>

lemma send_response_flag:
  "send_response clk s m = (r, s') \<Longrightarrow> clientSentFinalMsg s \<noteq> None \<Longrightarrow> clientSentFinalMsg s' \<noteq> None"
  by (auto simp: send_response_def close_not_clean_def Let_def stop_pc_def split: if_splits option.splits)

lemma runMarxan_open_flag:
  assumes "runMarxan_open cfg clk env srv s = (r, srv', s')" "marxanProcess s = None"
    "marxanProcess s' \<noteq> None"
  shows "clientSentFinalMsg s' \<noteq> None"
proof -
  obtain r0 s1 where b: "MarxanWebSocketHandler_open clk env s [(''info'', ''Running Marxan..'')] = (r0, s1)"
    by (cases "MarxanWebSocketHandler_open clk env s [(''info'', ''Running Marxan..'')]") auto
  from open_request[of s clk env "[(''info'', ''Running Marxan..'')]"] b assms(2)
  have m1: "marxanProcess s1 = None" by (simp add: same_request_def)
  show ?thesis
  proof (cases r0)
    case None
    from open_flag[OF b[unfolded None]] have fl: "clientSentFinalMsg s1 = Some False" .
    show ?thesis
      using assms(1,3) b None m1 fl
      by (auto simp: runMarxan_open_def Let_def
            split: prod.splits option.splits sum.splits bool.splits if_splits
            dest!: close_requestD send_response_flag)
  next
    case (Some e)
    with assms(1,3) b m1 show ?thesis
      by (cases e) (auto simp: runMarxan_open_def)
  qed
qed

text \<open>
  A start that finds a running row of its user and project whose names pandas reads as
  text: the server is left as it was, no child is attached to the session, and the session
  that got through \<^verbatim>\<open>MarxanWebSocketHandler.open\<close> is closed with the error that the
  project is already running.
\<close>

lemma isProjectRunning_True:
  assumes "runlog srv = Some df"
    "\<exists>r\<in>set df. status r = ''Running'' \<and> user r = u \<and> project r = p"
    "as_str cfg (map user df) u" "as_str cfg (map project df) p"
  shows "isProjectRunning cfg (runlog srv) u p = Inr True"
  using assms by (auto simp: isProjectRunning_def filter_empty_conv cell_def)

lemma conflict_lemma:
  assumes "runlog srv = Some df" "\<exists>r\<in>set df. status r = ''Running'' \<and> user r = u \<and> project r = p"
    "as_str cfg (map user df) u" "as_str cfg (map project df) p"
    "req_user s = Some u" "req_project s = Some p"
  shows "\<exists>r s'. runMarxan_open cfg clk env srv s = (r, srv, s') \<and> marxanProcess s' = marxanProcess s
           \<and> (\<forall>s1. MarxanWebSocketHandler_open clk env s [(''info'', ''Running Marxan..'')] = (None, s1)
                 \<longrightarrow> r = None \<and> close clk s1 [(''error'', already_running cfg), (''info'', [])] True = (None, s')
                     \<and> \<not> ws_connection s' \<and> clientSentFinalMsg s' = Some True
                     \<and> written s' = (if ws_connection s1
                                      then written s1 @ [enriched clk s1 [(''error'', already_running cfg),
                                                           (''info'', []), (''status'', ''Finished'')]]
                                      else written s1))"
proof -
  obtain r0 s1 where b: "MarxanWebSocketHandler_open clk env s [(''info'', ''Running Marxan..'')] = (r0, s1)"
    by (cases "MarxanWebSocketHandler_open clk env s [(''info'', ''Running Marxan..'')]") auto
  from open_request[of s clk env "[(''info'', ''Running Marxan..'')]"] b
  have sr: "same_request s s1" by simp
  with assms(5,6) have up: "req_user s1 = Some u" "req_project s1 = Some p"
    and mp: "marxanProcess s1 = marxanProcess s" by (simp_all add: same_request_def)
  note run = isProjectRunning_True[OF assms(1,2,3,4)]
  show ?thesis
  proof (cases r0)
    case None
    from open_flag[OF b[unfolded None]] have fl: "clientSentFinalMsg s1 = Some False" .
    from close_clean_result[OF fl, of clk "[(''error'', already_running cfg), (''info'', [])]"]
    obtain s' where c: "close clk s1 [(''error'', already_running cfg), (''info'', [])] True = (None, s')"
      "\<not> ws_connection s'" "clientSentFinalMsg s' = Some True"
      "written s' = (if ws_connection s1
                     then written s1 @ [enriched clk s1 [(''error'', already_running cfg),
                                                           (''info'', []), (''status'', ''Finished'')]]
                     else written s1)"
      by auto
    from close_request[of s1 clk "[(''error'', already_running cfg), (''info'', [])]" True] c(1) mp
    have mp': "marxanProcess s' = marxanProcess s" by (simp add: same_request_def)
    have "runMarxan_open cfg clk env srv s = (None, srv, s')"
      using b None up run c(1) by (simp add: runMarxan_open_def)
    with c mp' b None show ?thesis by simp
  next
    case (Some e)
    have "\<exists>r. runMarxan_open cfg clk env srv s = (r, srv, s1)"
      using b Some by (cases e) (simp_all add: runMarxan_open_def)
    with mp b Some show ?thesis by auto
  qed
qed

text \<open>
  C1. A start for a user and project that have a running row should fail with the error
  that the project is already running, before any file is deleted, any process started or
  any row appended. The code does so when pandas reads the user and the project of the
  run log as text (lemma \<open>conflict_lemma\<close>). It does not when the column is read as
  numbers: here the only row of the log is the running job 7 of the project \<open>123\<close>, so
  that the column of projects is numeric and no cell of it equals the text \<open>123\<close> of the
  request. \<^verbatim>\<open>_isProjectRunning\<close> answers no, the output file of the running job is
  deleted, a second process is started and a second running row for the same user and
  project is appended.
\<close>

theorem second_start_of_numeric_project:
  "status ex_row123 = ''Running'' \<and> user ex_row123 = ''admin'' \<and> project ex_row123 = ''123''
   \<and> runlog ex_srv123 = Some [ex_row123]
   \<and> glob (files ex_srv123) ''/srv/users/admin/123/output/*''
       = [''/srv/users/admin/123/output/output_r00001.csv'']
   \<and> isProjectRunning ex_cfg (runlog ex_srv123) ''admin'' ''123'' = Inr False
   \<and> (case runMarxan_open ex_cfg ex_clk ex_env ex_srv123 (ex_session\<lparr>req_project := Some ''123''\<rparr>) of
         (r, srv, s) \<Rightarrow>
           (r, map (\<lambda>r. (pid r, user r, project r, status r)) (rows_of (runlog srv)),
            glob (files srv) ''/srv/users/admin/123/output/*'', procs srv 9, marxanProcess s,
            map (\<lambda>m. map_of m ''error'') (written s)))
       = (None,
          [(7, ''admin'', ''123'', ''Running''), (9, ''admin'', ''123'', ''Running'')],
          [], Own, Some 9, [None, None, None])"
  by code_simp

end
